theory Spec2Isabelle
  imports Main
begin

section \<open>Observable effects and user callbacks\<close>

text \<open>
  The framework calls into user code (cleanup tasks, event handlers, key handlers,
  lifecycle hooks, transition effects) and writes to a log (\<open>FMLog.log\<close>,
  \<open>console.error\<close>). Both are recorded, in the order in which they happen, as a list
  of events. A JavaScript exception is a value of type \<open>error\<close>.

  What user code does beyond being called, and returning or throwing, is not the
  framework's: a call of user code leaves the state of the framework as it is. A log
  entry is the call of the logger (which the logger's own filter may then drop). Styles
  other than \<open>display\<close>, stacking order and the attachment of top-level containers to the
  host's UI root play no part in what follows and are left out.
\<close>

datatype error = Error string | TypeError string

text \<open>
  A user-supplied function: its identity (JavaScript compares functions by reference)
  and what invoking it does, namely return normally or throw.
\<close>

datatype callback = Callback (cbId: nat) (cbThrows: "error option")

datatype event =
    Logged string string
  | Invoked nat "string list"
  | ContentReplaced string
  | HostListenerAdded string nat
  | HostListenerRemoved string nat
  | EnterHook string "string option"
  | ExitHook string string
  | EffectExit string "string option" string int
  | EffectEnter string string "string option" int
  | NextFrame

text \<open>Invoking a callback: the invocation is observed, and the exception (if any) is returned.\<close>

definition call :: "callback \<Rightarrow> string list \<Rightarrow> event list \<times> error option" where
  "call cb args = ([Invoked (cbId cb) args], cbThrows cb)"

section \<open>UILayer (src/UILayerManager.ts)\<close>

record DelegatedListener =
  dlEventType :: string
  dlSelector :: string
  dlCallback :: callback

text \<open>
  The child nodes of a layer's root element. Parsing of HTML is the host's business: the
  result of assigning \<open>innerHTML\<close> or \<open>textContent\<close> is one opaque node (none for
  the empty string); \<open>Container n\<close> is the root element of the sub-layer \<open>n\<close>.
\<close>

datatype dom = Parsed string | TextNode string | Container string | Appended nat

text \<open>
  A cleanup task: a function of the user's (\<open>addCleanupTask\<close>), or the closure that
  \<open>onContainer\<close> registers, which removes the listener (event type, callback) from the
  host's DOM container.
\<close>

datatype task = UserTask callback | RemoveContainerListener string callback

text \<open>
  One \<open>UILayer\<close> object. \<open>elListeners\<close> is the list of listeners installed on the
  root element by \<open>element.addEventListener\<close>, each given by its event type (the
  handler closures installed by \<open>on\<close> differ in nothing else); \<open>masterHandlers\<close> is
  the key list of the \<open>Map\<close> of the same name, in insertion order.
\<close>

record UILayer =
  lyName :: string
  display :: string
  elChildren :: "dom list"
  elListeners :: "string list"
  delegatedListeners :: "DelegatedListener list"
  masterHandlers :: "string list"
  cleanupTasks :: "task list"

definition newUILayer :: "string \<Rightarrow> UILayer" where
  "newUILayer n = \<lparr>lyName = n, display = '''', elChildren = [], elListeners = [],
     delegatedListeners = [], masterHandlers = [], cleanupTasks = []\<rparr>"

definition showLayer :: "UILayer \<Rightarrow> UILayer" where
  "showLayer l = l\<lparr>display := ''''\<rparr>"

definition hideLayer :: "UILayer \<Rightarrow> UILayer" where
  "hideLayer l = l\<lparr>display := ''none''\<rparr>"



text \<open>
  The loop of \<open>clearListeners\<close> over the cleanup tasks: each task runs inside its own
  \<open>try\<close>; the \<open>catch\<close> logs and the loop goes on.
\<close>

fun runTask :: "task \<Rightarrow> event list \<times> error option" where
  "runTask (UserTask cb) = call cb []"
| "runTask (RemoveContainerListener et cb) = ([HostListenerRemoved et (cbId cb)], None)"

fun runCleanupTasks :: "task list \<Rightarrow> event list" where
  "runCleanupTasks [] = []"
| "runCleanupTasks (task # tasks) =
     (case runTask task of
        (evs, None) \<Rightarrow> evs @ runCleanupTasks tasks
      | (evs, Some e) \<Rightarrow>
          evs @ [Logged ''error'' ''Error during UILayer cleanup task''] @ runCleanupTasks tasks)"

definition clearListeners :: "UILayer \<Rightarrow> UILayer \<times> event list" where
  "clearListeners l =
     (let evs = runCleanupTasks (cleanupTasks l);
          l1 = l\<lparr>cleanupTasks := []\<rparr>;
          l2 = l1\<lparr>elListeners := fold remove1 (masterHandlers l1) (elListeners l1)\<rparr>
      in (l2\<lparr>delegatedListeners := [], masterHandlers := []\<rparr>, evs))"



definition addCleanupTask :: "task \<Rightarrow> UILayer \<Rightarrow> UILayer" where
  "addCleanupTask task l = l\<lparr>cleanupTasks := cleanupTasks l @ [task]\<rparr>"

text \<open>
  \<open>onContainer\<close>; \<open>container\<close> says whether the host has a DOM container
  (\<open>RE.Runtime.rogueDOMContainer\<close>).
\<close>

definition onContainer :: "bool \<Rightarrow> string \<Rightarrow> callback \<Rightarrow> UILayer \<Rightarrow> UILayer \<times> event list" where
  "onContainer container et cb l =
     (if \<not> container then
        (l, [Logged ''error'' (''RE.Runtime.rogueDOMContainer is not available to attach '' @
               [CHR 0x27] @ et @ [CHR 0x27] @ '' listener.'')])
      else (addCleanupTask (RemoveContainerListener et cb) l, [HostListenerAdded et (cbId cb)]))"


text \<open>
  The master handler that \<open>on\<close> installs for an event type: it walks the delegations,
  and calls each one of the event's type whose selector matches (\<open>matches\<close> stands for
  \<open>targetElement.closest(selector)\<close> finding an element inside the layer). There is no
  \<open>try\<close> in this loop: an exception of a callback leaves the handler.
\<close>

fun masterHandler :: "(string \<Rightarrow> bool) \<Rightarrow> string \<Rightarrow> DelegatedListener list \<Rightarrow> event list \<times> error option" where
  "masterHandler matches ty [] = ([], None)"
| "masterHandler matches ty (d # ds) =
     (if dlEventType d = ty \<and> matches (dlSelector d) then
        (case call (dlCallback d) [ty, dlSelector d] of
           (evs, Some e) \<Rightarrow> (evs, Some e)
         | (evs, None) \<Rightarrow> (case masterHandler matches ty ds of (evs', r) \<Rightarrow> (evs @ evs', r)))
      else masterHandler matches ty ds)"

definition on :: "string \<Rightarrow> string \<Rightarrow> callback \<Rightarrow> UILayer \<Rightarrow> UILayer" where
  "on et sel cb l =
     (let l1 = (if et \<notin> set (masterHandlers l)
                then l\<lparr>elListeners := elListeners l @ [et], masterHandlers := masterHandlers l @ [et]\<rparr>
                else l)
      in l1\<lparr>delegatedListeners := delegatedListeners l1 @
            [\<lparr>dlEventType = et, dlSelector = sel, dlCallback = cb\<rparr>]\<rparr>)"








section \<open>The layer tree and UILayerManager (src/UILayerManager.ts)\<close>

text \<open>
  A layer with its sub-layers (\<open>children: UILayer[]\<close>). The manager's registry
  \<open>layers: Map<string, UILayer>\<close> holds every layer of the forest under its name;
  \<open>create\<close> refuses a name that is registered, so the names of a forest are distinct, and
  looking a name up in the registry is finding the node of that name. The top-level layers
  are kept in creation order.
\<close>

datatype tree = Node (label: UILayer) (subLayers: "tree list")

type_synonym UILayerManager = "tree list"

fun firstSome :: "'a option list \<Rightarrow> 'a option" where
  "firstSome [] = None"
| "firstSome (None # xs) = firstSome xs"
| "firstSome (Some x # xs) = Some x"

fun findNode :: "string \<Rightarrow> tree \<Rightarrow> tree option" where
  "findNode n (Node l cs) =
     (if lyName l = n then Some (Node l cs) else firstSome (map (findNode n) cs))"

definition getNode :: "string \<Rightarrow> UILayerManager \<Rightarrow> tree option" where
  "getNode n m = firstSome (map (findNode n) m)"

definition get :: "string \<Rightarrow> UILayerManager \<Rightarrow> UILayer option" where
  "get n m = map_option label (getNode n m)"

definition has :: "string \<Rightarrow> UILayerManager \<Rightarrow> bool" where
  "has n m \<longleftrightarrow> get n m \<noteq> None"

definition find :: "string \<Rightarrow> UILayerManager \<Rightarrow> error + UILayer" where
  "find n m =
     (case get n m of
        None \<Rightarrow> Inl (Error (''UILayerManager: Layer with name \"'' @ n @ ''\" not found.''))
      | Some l \<Rightarrow> Inr l)"

text \<open>Replacing the node of a given name (the effect of a method call on that layer object).\<close>

fun updateNode :: "string \<Rightarrow> (tree \<Rightarrow> tree) \<Rightarrow> tree \<Rightarrow> tree" where
  "updateNode n f (Node l cs) =
     (if lyName l = n then f (Node l cs) else Node l (map (updateNode n f) cs))"

definition onLabel :: "(UILayer \<Rightarrow> UILayer) \<Rightarrow> tree \<Rightarrow> tree" where
  "onLabel g t = Node (g (label t)) (subLayers t)"

definition updateLayer :: "string \<Rightarrow> (UILayer \<Rightarrow> UILayer) \<Rightarrow> UILayerManager \<Rightarrow> UILayerManager" where
  "updateLayer n g m = map (updateNode n (onLabel g)) m"

text \<open>
  \<open>destroy\<close>: the sub-layers first, each with its own sub-layers first, then the layer's
  own \<open>clearListeners\<close>; the node leaves its parent's \<open>children\<close> and the registry, and
  its root element leaves the parent's element.
\<close>

fun destroyEvents :: "tree \<Rightarrow> event list" where
  "destroyEvents (Node l cs) = concat (map destroyEvents cs) @ snd (clearListeners l)"

fun removeNode :: "string \<Rightarrow> tree list \<Rightarrow> tree list" where
  "removeNode n [] = []"
| "removeNode n (Node l cs # ts) =
     (if lyName l = n then ts
      else Node (if \<exists>c \<in> set cs. lyName (label c) = n
                 then l\<lparr>elChildren := remove1 (Container n) (elChildren l)\<rparr> else l)
             (removeNode n cs) # removeNode n ts)"

definition destroy :: "string \<Rightarrow> UILayerManager \<Rightarrow> (UILayerManager \<times> event list) \<times> bool" where
  "destroy n m =
     (case getNode n m of
        None \<Rightarrow> ((m, []), False)
      | Some t \<Rightarrow> ((removeNode n m, destroyEvents t), True))"

text \<open>
  \<open>reset\<close> of a layer: every sub-layer is destroyed, the content is cleared, and then
  the listeners are.
\<close>

definition resetNode :: "tree \<Rightarrow> tree" where
  "resetNode t = Node (fst (clearListeners ((label t)\<lparr>elChildren := []\<rparr>))) []"

definition resetEvents :: "tree \<Rightarrow> event list" where
  "resetEvents t = concat (map destroyEvents (subLayers t)) @ snd (clearListeners (label t))"

text \<open>
  \<open>create\<close>, with the \<open>parent\<close> option given by name (or absent): a registered name is
  an error; a parent that is not found gives a warning and a top-level layer.
\<close>

definition resolveParent :: "string option \<Rightarrow> UILayerManager \<Rightarrow> string option \<times> event list" where
  "resolveParent parent m =
     (case parent of
        None \<Rightarrow> (None, [])
      | Some p \<Rightarrow>
          (if p = [] then (None, [])
           else if has p m then (Some p, [])
           else (None, [Logged ''warn''
                  (''Parent layer \"'' @ p @ ''\" not found. Creating as a top-level layer.'')])))"

definition addChild :: "tree \<Rightarrow> tree \<Rightarrow> tree" where
  "addChild c t =
     Node ((label t)\<lparr>elChildren := elChildren (label t) @ [Container (lyName (label c))]\<rparr>)
       (subLayers t @ [c])"

definition create :: "string \<Rightarrow> string option \<Rightarrow> UILayerManager \<Rightarrow> error + (UILayerManager \<times> event list)" where
  "create n parent m =
     (if has n m
      then Inl (Error (''UILayerManager: Layer with name \"'' @ n @ ''\" already exists.''))
      else (case resolveParent parent m of
              (None, evs) \<Rightarrow> Inr (m @ [Node (newUILayer n) []], evs)
            | (Some p, evs) \<Rightarrow> Inr (map (updateNode p (addChild (Node (newUILayer n) []))) m, evs)))"


section \<open>JavaScript containers\<close>

text \<open>
  A \<open>Map\<close> is an association list in insertion order with distinct keys: \<open>set\<close> on
  a key that is present replaces the value in place. A \<open>Set\<close> is a list without
  duplicates in insertion order: \<open>[...new Set(xs)]\<close> keeps the first occurrence of each
  element.
\<close>

fun mapSet :: "'k \<Rightarrow> 'v \<Rightarrow> ('k \<times> 'v) list \<Rightarrow> ('k \<times> 'v) list" where
  "mapSet k v [] = [(k, v)]"
| "mapSet k v ((k', v') # m) = (if k' = k then (k, v) # m else (k', v') # mapSet k v m)"

definition mapHas :: "'k \<Rightarrow> ('k \<times> 'v) list \<Rightarrow> bool" where
  "mapHas k m \<longleftrightarrow> map_of m k \<noteq> None"

definition setAdd :: "'a \<Rightarrow> 'a list \<Rightarrow> 'a list" where
  "setAdd x xs = (if x \<in> set xs then xs else xs @ [x])"

definition newSet :: "'a list \<Rightarrow> 'a list" where
  "newSet xs = fold setAdd xs []"

definition orEmpty :: "'a list option \<Rightarrow> 'a list" where
  "orEmpty xs = (case xs of None \<Rightarrow> [] | Some ys \<Rightarrow> ys)"

function showNat :: "nat \<Rightarrow> string" where
  "showNat n =
     (if n < 10 then [char_of (48 + n)] else showNat (n div 10) @ [char_of (48 + n mod 10)])"
  by pat_completeness auto
termination
  by (relation "measure id") auto

declare showNat.simps [simp del]

section \<open>FocusEventBus (src/utils/FocusEventBus.ts)\<close>

text \<open>
  The handlers on the bus: a function of the user's, or the closure \<open>scopedCallback\<close>
  that \<open>FocusManager._activateStateEventListeners\<close> makes for the listener of a state
  at an index.
\<close>

datatype EventHandler = Plain callback | ScopedCallback string nat callback

type_synonym FocusEventBus = "(string \<times> EventHandler list) list"

definition busOn :: "string \<Rightarrow> EventHandler \<Rightarrow> FocusEventBus \<Rightarrow> FocusEventBus" where
  "busOn eventName cb bus =
     (let bus1 = (if \<not> mapHas eventName bus then mapSet eventName [] bus else bus)
      in mapSet eventName (orEmpty (map_of bus1 eventName) @ [cb]) bus1)"

definition busOff :: "string \<Rightarrow> EventHandler \<Rightarrow> FocusEventBus \<Rightarrow> FocusEventBus" where
  "busOff eventName cb bus =
     (case map_of bus eventName of
        None \<Rightarrow> bus
      | Some eventListeners \<Rightarrow> mapSet eventName (remove1 cb eventListeners) bus)"

text \<open>
  \<open>emit\<close> walks a copy of the handler list; each handler runs inside its own \<open>try\<close>,
  and the \<open>catch\<close> writes to \<open>console.error\<close>. How a handler runs is given by
  \<open>invoke\<close>.
\<close>

fun emitTo :: "(EventHandler \<Rightarrow> string option \<Rightarrow> event list \<times> error option) \<Rightarrow> string \<Rightarrow>
    string option \<Rightarrow> EventHandler list \<Rightarrow> event list" where
  "emitTo invoke eventName payload [] = []"
| "emitTo invoke eventName payload (listener # rest) =
     (case invoke listener payload of
        (evs, None) \<Rightarrow> evs @ emitTo invoke eventName payload rest
      | (evs, Some e) \<Rightarrow>
          evs @ [Logged ''error'' (''Error in event handler for '' @ [CHR 0x27] @ eventName @ [CHR 0x27] @ '':'')]
              @ emitTo invoke eventName payload rest)"

definition emit :: "(EventHandler \<Rightarrow> string option \<Rightarrow> event list \<times> error option) \<Rightarrow> string \<Rightarrow>
    string option \<Rightarrow> FocusEventBus \<Rightarrow> event list" where
  "emit invoke eventName payload bus =
     (case map_of bus eventName of
        None \<Rightarrow> []
      | Some eventListeners \<Rightarrow> emitTo invoke eventName payload eventListeners)"

definition payloadArgs :: "string option \<Rightarrow> string list" where
  "payloadArgs payload = (case payload of None \<Rightarrow> [] | Some p \<Rightarrow> [p])"

section \<open>FocusStateConfig and the FocusState builder (src/FocusState.ts)\<close>

record EventListener =
  evEventName :: string
  evCallback :: callback

record KeyListener =
  klEventType :: string
  klKey :: string
  klCallback :: callback

record UIConfig =
  visible :: "string list option"
  preserveOnExit :: "string list option"
  cleanupOnExit :: "string list option"
  layers :: "(string \<times> int) list option"

text \<open>
  The \<open>onEnter\<close> and \<open>onExit\<close> functions of a configuration: the function that
  \<open>FocusState.build\<close> composes for the builder of a given name, or the function that
  \<open>mergeConfigs\<close> makes of a base's and a child's, which awaits the base's (if any) and
  then the child's (if any).
\<close>

datatype hook = Composed string | Chained "hook option" "hook option"

record FocusStateConfig =
  extends :: "string option"
  ui :: "UIConfig option"
  transitionEffectName :: "string option"
  transitionDuration :: "int option"
  managedPrefabs :: "string list option"
  onEnterHookCount :: "nat option"
  onExitHookCount :: "nat option"
  eventListeners :: "EventListener list option"
  keyListeners :: "KeyListener list option"
  onEnter :: "hook option"
  onExit :: "hook option"

text \<open>
  The hooks a builder collects: functions of the user's, and the pair of hooks that each
  \<open>withPrefabs\<close> call adds, which share the variable \<open>instantiatedPrefabs\<close> of that
  call (identified by a slot number).
\<close>

datatype enter_hook = UserEnter callback | PrefabsEnter nat "string list"

datatype exit_hook = UserExit callback | PrefabsExit nat

record StateDelegatedListener =
  sdLayerName :: string
  sdEventType :: string
  sdSelector :: string
  sdCallback :: callback

record ContainerListener =
  clLayerName :: string
  clEventType :: string
  clCallback :: callback

record FocusState =
  stName :: string
  uiConfig :: UIConfig
  onEnterHooks :: "enter_hook list"
  onExitHooks :: "exit_hook list"
  stDelegatedListeners :: "StateDelegatedListener list"
  stEventListeners :: "EventListener list"
  stKeyListeners :: "KeyListener list"
  containerListeners :: "ContainerListener list"
  extendsStateName :: "string option"
  stPreserveOnExit :: "string list"
  stTransitionEffectName :: "string option"
  stTransitionDuration :: "int option"
  stManagedPrefabs :: "string list"
  entryVersion :: nat

definition emptyUI :: UIConfig where
  "emptyUI = \<lparr>visible = None, preserveOnExit = None, cleanupOnExit = None, layers = None\<rparr>"

text \<open>\<open>FocusManager.create(name)\<close>: a fresh builder.\<close>

definition newFocusState :: "string \<Rightarrow> FocusState" where
  "newFocusState n = \<lparr>stName = n, uiConfig = emptyUI, onEnterHooks = [], onExitHooks = [],
     stDelegatedListeners = [], stEventListeners = [], stKeyListeners = [],
     containerListeners = [], extendsStateName = None, stPreserveOnExit = [],
     stTransitionEffectName = None, stTransitionDuration = None, stManagedPrefabs = [],
     entryVersion = 0\<rparr>"

definition stExtends :: "string \<Rightarrow> FocusState \<Rightarrow> FocusState" where
  "stExtends baseStateName st = st\<lparr>extendsStateName := Some baseStateName\<rparr>"

definition orElse :: "'a option \<Rightarrow> 'a option \<Rightarrow> 'a option" where
  "orElse x y = (case x of None \<Rightarrow> y | Some v \<Rightarrow> Some v)"

text \<open>
  \<open>ui(config)\<close>: the keys that \<open>config\<close> has replace those collected so far (a field
  \<open>None\<close> of the argument is a key that the object literal does not have).
\<close>

definition stUi :: "UIConfig \<Rightarrow> FocusState \<Rightarrow> FocusState" where
  "stUi config st =
     st\<lparr>uiConfig := \<lparr>visible = orElse (visible config) (visible (uiConfig st)),
                      preserveOnExit = orElse (preserveOnExit config) (preserveOnExit (uiConfig st)),
                      cleanupOnExit = orElse (cleanupOnExit config) (cleanupOnExit (uiConfig st)),
                      layers = orElse (layers config) (layers (uiConfig st))\<rparr>,
        stPreserveOnExit := fold setAdd (orEmpty (preserveOnExit config)) (stPreserveOnExit st)\<rparr>"

definition stOnEnter :: "callback \<Rightarrow> FocusState \<Rightarrow> FocusState" where
  "stOnEnter cb st = st\<lparr>onEnterHooks := onEnterHooks st @ [UserEnter cb]\<rparr>"

definition stOnExit :: "callback \<Rightarrow> FocusState \<Rightarrow> FocusState" where
  "stOnExit cb st = st\<lparr>onExitHooks := onExitHooks st @ [UserExit cb]\<rparr>"

text \<open>
  \<open>withPrefabs\<close>: the slot of the call's \<open>instantiatedPrefabs\<close> variable is the number
  of enter hooks collected before the call, which no other call of the builder shares.
\<close>

definition withPrefabs :: "string list \<Rightarrow> FocusState \<Rightarrow> FocusState" where
  "withPrefabs prefabNames st =
     st\<lparr>stManagedPrefabs := stManagedPrefabs st @ prefabNames,
        onEnterHooks := onEnterHooks st @ [PrefabsEnter (length (onEnterHooks st)) prefabNames],
        onExitHooks := onExitHooks st @ [PrefabsExit (length (onEnterHooks st))]\<rparr>"

definition withTransition :: "string \<Rightarrow> int option \<Rightarrow> FocusState \<Rightarrow> FocusState" where
  "withTransition effectName durationMs st =
     st\<lparr>stTransitionEffectName := Some effectName, stTransitionDuration := durationMs\<rparr>"

definition stOn :: "string \<Rightarrow> string \<Rightarrow> string \<Rightarrow> callback \<Rightarrow> FocusState \<Rightarrow> FocusState" where
  "stOn layerName et sel cb st =
     st\<lparr>stDelegatedListeners := stDelegatedListeners st @
          [\<lparr>sdLayerName = layerName, sdEventType = et, sdSelector = sel, sdCallback = cb\<rparr>]\<rparr>"

definition stOnContainer :: "string \<Rightarrow> string \<Rightarrow> callback \<Rightarrow> FocusState \<Rightarrow> FocusState" where
  "stOnContainer layerName et cb st =
     st\<lparr>containerListeners := containerListeners st @
          [\<lparr>clLayerName = layerName, clEventType = et, clCallback = cb\<rparr>]\<rparr>"

definition onEvent :: "string \<Rightarrow> callback \<Rightarrow> FocusState \<Rightarrow> FocusState" where
  "onEvent eventName cb st =
     st\<lparr>stEventListeners := stEventListeners st @ [\<lparr>evEventName = eventName, evCallback = cb\<rparr>]\<rparr>"

definition onKey :: "string \<Rightarrow> string \<Rightarrow> callback \<Rightarrow> FocusState \<Rightarrow> FocusState" where
  "onKey et key cb st =
     st\<lparr>stKeyListeners := stKeyListeners st @ [\<lparr>klEventType = et, klKey = key, klCallback = cb\<rparr>]\<rparr>"

definition dontResetOnExit :: "string \<Rightarrow> FocusState \<Rightarrow> FocusState" where
  "dontResetOnExit layerName st = st\<lparr>stPreserveOnExit := setAdd layerName (stPreserveOnExit st)\<rparr>"

definition nonEmpty :: "'a list \<Rightarrow> 'a list option" where
  "nonEmpty xs = (if xs = [] then None else Some xs)"

text \<open>
  \<open>build\<close>. Every key of the result is written (some with the value \<open>undefined\<close>,
  here \<open>None\<close>), and both hooks are always functions.
\<close>

definition build :: "FocusState \<Rightarrow> FocusStateConfig" where
  "build st =
     (let ui0 = (uiConfig st)\<lparr>preserveOnExit := nonEmpty (stPreserveOnExit st)\<rparr>;
          layersWithListeners =
            fold setAdd (map clLayerName (containerListeners st))
              (fold setAdd (map sdLayerName (stDelegatedListeners st)) []);
          cleanupSet =
            fold setAdd (filter (\<lambda>layerName. layerName \<in> set (stPreserveOnExit st)) layersWithListeners)
              (newSet (orEmpty (cleanupOnExit ui0)));
          ui1 = (if layersWithListeners \<noteq> [] \<and> cleanupSet \<noteq> []
                 then ui0\<lparr>cleanupOnExit := Some cleanupSet\<rparr> else ui0)
      in \<lparr>extends = extendsStateName st,
          ui = Some ui1,
          transitionEffectName = stTransitionEffectName st,
          transitionDuration = stTransitionDuration st,
          managedPrefabs = nonEmpty (stManagedPrefabs st),
          onEnterHookCount = Some (length (onEnterHooks st)),
          onExitHookCount = Some (length (onExitHooks st)),
          eventListeners = nonEmpty (stEventListeners st),
          keyListeners = nonEmpty (stKeyListeners st),
          onEnter = Some (Composed (stName st)),
          onExit = Some (Composed (stName st))\<rparr>)"


section \<open>Inheritance (src/FocusManager.ts: mergeConfigs, resolveInheritance)\<close>

text \<open>The composed hooks that awaiting a hook function runs, in order, by builder name.\<close>

fun hookRuns :: "hook \<Rightarrow> string list" where
  "hookRuns (Composed n) = [n]"
| "hookRuns (Chained b c) =
     (case b of None \<Rightarrow> [] | Some h \<Rightarrow> hookRuns h) @ (case c of None \<Rightarrow> [] | Some h \<Rightarrow> hookRuns h)"

definition awaitHook :: "hook option \<Rightarrow> string list" where
  "awaitHook h = (case h of None \<Rightarrow> [] | Some f \<Rightarrow> hookRuns f)"

definition uiField :: "FocusStateConfig \<Rightarrow> (UIConfig \<Rightarrow> 'a option) \<Rightarrow> 'a option" where
  "uiField config field = (case ui config of None \<Rightarrow> None | Some u \<Rightarrow> field u)"

definition orZero :: "nat option \<Rightarrow> nat" where
  "orZero n = (case n of None \<Rightarrow> 0 | Some k \<Rightarrow> k)"

definition spreadLayers :: "(string \<times> int) list \<Rightarrow> (string \<times> int) list \<Rightarrow> (string \<times> int) list" where
  "spreadLayers base child = fold (\<lambda>(k, v). mapSet k v) child base"

text \<open>
  \<open>mergeConfigs\<close>. In \<open>{...base, ...child}\<close> the child's value wins for every key the
  child has, also where that value is \<open>undefined\<close>; the configurations that reach
  \<open>mergeConfigs\<close> come from \<open>build\<close>, which writes every key, so the spread is the
  child. The keys listed after the spread are then replaced.
\<close>

definition mergeConfigs :: "FocusStateConfig \<Rightarrow> FocusStateConfig \<Rightarrow> FocusStateConfig" where
  "mergeConfigs base child =
     (let mergedUI =
            \<lparr>visible = orElse (uiField child visible) (uiField base visible),
             preserveOnExit = Some (newSet (orEmpty (uiField base preserveOnExit) @
                                            orEmpty (uiField child preserveOnExit))),
             cleanupOnExit = Some (newSet (orEmpty (uiField base cleanupOnExit) @
                                           orEmpty (uiField child cleanupOnExit))),
             layers = Some (spreadLayers (orEmpty (uiField base layers)) (orEmpty (uiField child layers)))\<rparr>
      in child\<lparr>ui := Some mergedUI,
               managedPrefabs := Some (newSet (orEmpty (managedPrefabs base) @ orEmpty (managedPrefabs child))),
               onEnterHookCount := Some (orZero (onEnterHookCount base) + orZero (onEnterHookCount child)),
               onExitHookCount := Some (orZero (onExitHookCount base) + orZero (onExitHookCount child)),
               onEnter := (if onEnter base \<noteq> None \<or> onEnter child \<noteq> None
                           then Some (Chained (onEnter base) (onEnter child)) else onEnter child),
               onExit := (if onExit base \<noteq> None \<or> onExit child \<noteq> None
                          then Some (Chained (onExit base) (onExit child)) else onExit child)\<rparr>)"

definition joinArrow :: "string list \<Rightarrow> string" where
  "joinArrow xs = concat (case xs of [] \<Rightarrow> [] | y # ys \<Rightarrow> y # map (\<lambda>z. '' -> '' @ z) ys)"

text \<open>
  \<open>resolveInheritance\<close>, over the registry \<open>states\<close> of the manager. The recursion
  goes on only to a registered name that is not yet in \<open>visited\<close>.
\<close>

function resolveInheritance ::
    "(string \<times> FocusStateConfig) list \<Rightarrow> FocusStateConfig \<Rightarrow> string list \<Rightarrow> FocusStateConfig \<times> event list" where
  "resolveInheritance sts config visited =
     (case extends config of
        None \<Rightarrow> (config, [])
      | Some parentName \<Rightarrow>
          (if parentName = [] then (config, [])
           else if parentName \<in> set visited then
             (config\<lparr>extends := None\<rparr>,
              [Logged ''error'' (''Circular dependency detected in state inheritance: '' @
                 joinArrow (visited @ [parentName]))])
           else (case map_of sts parentName of
                   None \<Rightarrow>
                     (config\<lparr>extends := None\<rparr>,
                      [Logged ''error'' (''Base state '' @ [CHR 0x27] @ parentName @ [CHR 0x27] @
                         '' not found. It must be registered before the states that extend it.'')])
                 | Some parentConfig \<Rightarrow>
                     (case resolveInheritance sts parentConfig (setAdd parentName visited) of
                        (resolvedParent, evs) \<Rightarrow> (mergeConfigs resolvedParent config, evs)))))"
  by pat_completeness auto
termination
proof (relation "measure (\<lambda>(sts, config, visited). card (fst ` set sts - set visited))")
  show "wf (measure (\<lambda>(sts, config, visited). card (fst ` set sts - set visited)))"
    by simp
next
  fix sts :: "(string \<times> FocusStateConfig) list" and config :: FocusStateConfig
    and visited :: "string list" and parentName :: string and parentConfig :: FocusStateConfig
  assume nv: "parentName \<notin> set visited" and reg: "map_of sts parentName = Some parentConfig"
  from reg have "parentName \<in> fst ` set sts"
    by (metis map_of_SomeD fst_conv image_eqI)
  with nv have "fst ` set sts - set (setAdd parentName visited) \<subset> fst ` set sts - set visited"
    by (auto simp: setAdd_def)
  then have "card (fst ` set sts - set (setAdd parentName visited)) < card (fst ` set sts - set visited)"
    by (intro psubset_card_mono) auto
  then show "((sts, parentConfig, setAdd parentName visited), (sts, config, visited))
      \<in> measure (\<lambda>(sts, config, visited). card (fst ` set sts - set visited))"
    by simp
qed

declare resolveInheritance.simps [simp del]


section \<open>FocusManager (src/FocusManager.ts)\<close>

text \<open>
  A transition effect: one of the three that \<open>_initializeDefaultEffects\<close> registers
  (fade, wipe, iris: each shows the transition layer in its exit phase and hides it at
  the end of its enter phase), or one of the user's.
\<close>

datatype effect = DefaultEffect | CustomEffect nat

text \<open>The closure that \<open>_activateStateKeyListeners\<close> makes for the key listener of a state at an index.\<close>

datatype KeyHandler = KeyHandler string nat KeyListener

text \<open>
  The manager. The keys of \<open>activeEventListeners\<close> and \<open>activeKeyListeners\<close> are the
  parts of the key strings of the source; \<open>docListeners\<close> is what the manager has
  installed on \<open>document\<close>; \<open>transitionEffects\<close> is the static registry of effects;
  \<open>trace\<close> is the record of what has been observed so far.
\<close>

record FocusManager =
  states :: "(string \<times> FocusStateConfig) list"
  uiLayerManager :: UILayerManager
  managedLayers :: "string list"
  stateStack :: "string list"
  events :: FocusEventBus
  activeEventListeners :: "((string \<times> string \<times> nat) \<times> (string \<times> EventHandler)) list"
  activeKeyListeners :: "((string \<times> string \<times> string \<times> nat) \<times> (string \<times> KeyHandler)) list"
  docListeners :: "(string \<times> KeyHandler) list"
  switchListeners :: "callback list"
  transitionEffects :: "(string \<times> effect) list"
  trace :: "event list"

definition transitionLayer :: string where
  "transitionLayer = ''focus-transition-layer''"

text \<open>The first manager of a program, on an empty layer tree.\<close>

definition newFocusManager :: FocusManager where
  "newFocusManager =
     \<lparr>states = [], uiLayerManager = [Node (hideLayer (newUILayer transitionLayer)) []],
      managedLayers = [], stateStack = [], events = [], activeEventListeners = [],
      activeKeyListeners = [], docListeners = [], switchListeners = [],
      transitionEffects = [(''fade'', DefaultEffect), (''wipe'', DefaultEffect), (''iris'', DefaultEffect)],
      trace = []\<rparr>"

definition logged :: "event list \<Rightarrow> FocusManager \<Rightarrow> FocusManager" where
  "logged evs fm = fm\<lparr>trace := trace fm @ evs\<rparr>"

definition current :: "FocusManager \<Rightarrow> string option" where
  "current fm = (if stateStack fm \<noteq> [] then Some (last (stateStack fm)) else None)"

definition quoted :: "string \<Rightarrow> string" where
  "quoted n = [CHR 0x27] @ n @ [CHR 0x27]"

text \<open>\<open>register\<close>.\<close>

fun createLayers :: "(string \<times> int) list \<Rightarrow> UILayerManager \<times> event list \<Rightarrow> error + (UILayerManager \<times> event list)" where
  "createLayers [] acc = Inr acc"
| "createLayers ((layerName, zIndex) # rest) (m, evs) =
     (if \<not> has layerName m then
        (case create layerName None m of
           Inl e \<Rightarrow> Inl e
         | Inr (m', evs') \<Rightarrow> createLayers rest (m', evs @ evs'))
      else createLayers rest (m, evs))"

definition register :: "FocusState \<Rightarrow> FocusManager \<Rightarrow> error + FocusManager" where
  "register st fm =
     (let fm1 = (if mapHas (stName st) (states fm)
                 then logged [Logged ''warn'' (''A state with the name '' @ quoted (stName st) @
                                '' is already registered. Overwriting.'')] fm
                 else fm);
          config = build st
      in case resolveInheritance (states fm1) config [] of
           (finalConfig, evs) \<Rightarrow>
             (case createLayers (orEmpty (uiField finalConfig layers)) (uiLayerManager fm1, []) of
                Inl e \<Rightarrow> Inl e
              | Inr (m, evs') \<Rightarrow>
                  Inr (fm1\<lparr>states := mapSet (stName st) finalConfig (states fm1),
                           uiLayerManager := m,
                           managedLayers :=
                             fold setAdd (orEmpty (uiField finalConfig cleanupOnExit))
                               (fold setAdd (orEmpty (uiField finalConfig preserveOnExit))
                                 (fold setAdd (orEmpty (uiField finalConfig visible)) (managedLayers fm1))),
                           trace := trace fm1 @ evs @ evs'\<rparr>)))"

text \<open>How the handlers that the manager installs run.\<close>

fun invokeHandler :: "string option \<Rightarrow> EventHandler \<Rightarrow> string option \<Rightarrow> event list \<times> error option" where
  "invokeHandler cur (Plain cb) payload = call cb (payloadArgs payload)"
| "invokeHandler cur (ScopedCallback stateName index cb) payload =
     (if cur = Some stateName then call cb (payloadArgs payload) else ([], None))"

text \<open>
  The key handler installed on \<open>document\<close>, run for an event with the given key. There
  is no \<open>try\<close> in it: an exception of the user's callback leaves the handler.
\<close>

fun keyHandler :: "string option \<Rightarrow> KeyHandler \<Rightarrow> string \<Rightarrow> event list \<times> error option" where
  "keyHandler cur (KeyHandler stateName index listener) key =
     (if cur = Some stateName \<and> key = klKey listener then call (klCallback listener) [key]
      else ([], None))"

definition fmEmit :: "string \<Rightarrow> string option \<Rightarrow> FocusManager \<Rightarrow> FocusManager" where
  "fmEmit eventName payload fm = logged (emit (invokeHandler (current fm)) eventName payload (events fm)) fm"

definition deactivateStateEventListeners :: "FocusManager \<Rightarrow> FocusManager" where
  "deactivateStateEventListeners fm =
     (if activeEventListeners fm = [] then fm
      else (logged [Logged ''lifecycle'' (''Deactivating '' @ showNat (length (activeEventListeners fm)) @ '' listeners.'')] fm)
             \<lparr>events := fold (\<lambda>(key, (eventName, cb)). busOff eventName cb) (activeEventListeners fm) (events fm),
              activeEventListeners := []\<rparr>)"

definition activateStateEventListeners :: "string \<Rightarrow> FocusManager \<Rightarrow> FocusManager" where
  "activateStateEventListeners stateName fm0 =
     (let fm = deactivateStateEventListeners fm0
      in case (case map_of (states fm) stateName of None \<Rightarrow> None | Some c \<Rightarrow> eventListeners c) of
           None \<Rightarrow> fm
         | Some ls \<Rightarrow>
             fold (\<lambda>(listener, index) f.
                     f\<lparr>events := busOn (evEventName listener)
                                   (ScopedCallback stateName index (evCallback listener)) (events f),
                       activeEventListeners :=
                         mapSet (stateName, evEventName listener, index)
                           (evEventName listener, ScopedCallback stateName index (evCallback listener))
                           (activeEventListeners f)\<rparr>)
               (zip ls [0 ..< length ls])
               (logged [Logged ''lifecycle'' (''Activating '' @ showNat (length ls) @
                          '' listeners for state '' @ quoted stateName @ ''.'')] fm))"

definition deactivateStateKeyListeners :: "FocusManager \<Rightarrow> FocusManager" where
  "deactivateStateKeyListeners fm =
     (if activeKeyListeners fm = [] then fm
      else (logged [Logged ''lifecycle'' (''Deactivating '' @ showNat (length (activeKeyListeners fm)) @ '' key listeners.'')] fm)
             \<lparr>docListeners := fold (\<lambda>(key, listenerInfo). remove1 listenerInfo) (activeKeyListeners fm) (docListeners fm),
              activeKeyListeners := []\<rparr>)"

definition activateStateKeyListeners :: "string \<Rightarrow> FocusManager \<Rightarrow> FocusManager" where
  "activateStateKeyListeners stateName fm0 =
     (let fm = deactivateStateKeyListeners fm0
      in case (case map_of (states fm) stateName of None \<Rightarrow> None | Some c \<Rightarrow> keyListeners c) of
           None \<Rightarrow> fm
         | Some ls \<Rightarrow>
             fold (\<lambda>(listener, index) f.
                     f\<lparr>docListeners := docListeners f @ [(klEventType listener, KeyHandler stateName index listener)],
                       activeKeyListeners :=
                         mapSet (stateName, klEventType listener, klKey listener, index)
                           (klEventType listener, KeyHandler stateName index listener)
                           (activeKeyListeners f)\<rparr>)
               (zip ls [0 ..< length ls])
               (logged [Logged ''lifecycle'' (''Activating '' @ showNat (length ls) @
                          '' key listeners for state '' @ quoted stateName @ ''.'')] fm))"

definition getTransitionEffect :: "string option \<Rightarrow> FocusManager \<Rightarrow> (string \<times> effect) option \<times> event list" where
  "getTransitionEffect effectName fm =
     (case effectName of
        None \<Rightarrow> (None, [])
      | Some n \<Rightarrow>
          (if n = [] then (None, [])
           else (case map_of (transitionEffects fm) n of
                   None \<Rightarrow> (None, [Logged ''warn'' (''Transition effect '' @ quoted n @ '' not found.'')])
                 | Some e \<Rightarrow> (Some (n, e), []))))"

text \<open>
  The two phases of an effect, when there is one: the call is observed; a default effect
  shows the transition layer in \<open>onExit\<close> and hides it at the end of \<open>onEnter\<close>; what an
  effect of the user's does is not the framework's.
\<close>

definition transitionOnExit :: "(string \<times> effect) option \<Rightarrow> string option \<Rightarrow> string \<Rightarrow> int \<Rightarrow> FocusManager \<Rightarrow> FocusManager" where
  "transitionOnExit transition fromState toState durationMs fm =
     (case transition of
        None \<Rightarrow> fm
      | Some (n, e) \<Rightarrow>
          (logged [EffectExit n fromState toState durationMs] fm)
            \<lparr>uiLayerManager := (if e = DefaultEffect
                                then updateLayer transitionLayer showLayer (uiLayerManager fm)
                                else uiLayerManager fm)\<rparr>)"

definition transitionOnEnter :: "(string \<times> effect) option \<Rightarrow> string \<Rightarrow> string option \<Rightarrow> int \<Rightarrow> FocusManager \<Rightarrow> FocusManager" where
  "transitionOnEnter transition currentState previousState durationMs fm =
     (case transition of
        None \<Rightarrow> fm
      | Some (n, e) \<Rightarrow>
          (logged [EffectEnter n currentState previousState durationMs] fm)
            \<lparr>uiLayerManager := (if e = DefaultEffect
                                then updateLayer transitionLayer hideLayer (uiLayerManager fm)
                                else uiLayerManager fm)\<rparr>)"

text \<open>\<open>_emitSwitchEvent\<close>: each listener in its own \<open>try\<close>.\<close>

fun runSwitchListeners :: "string list \<Rightarrow> callback list \<Rightarrow> event list" where
  "runSwitchListeners args [] = []"
| "runSwitchListeners args (listener # rest) =
     (case call listener args of
        (evs, None) \<Rightarrow> evs @ runSwitchListeners args rest
      | (evs, Some e) \<Rightarrow> evs @ [Logged ''error'' ''Error in onSwitch listener''] @ runSwitchListeners args rest)"

definition emitSwitchEvent :: "string \<Rightarrow> string option \<Rightarrow> FocusManager \<Rightarrow> FocusManager" where
  "emitSwitchEvent newState oldState fm =
     logged (runSwitchListeners (newState # payloadArgs oldState) (switchListeners fm)) fm"

text \<open>
  \<open>_exitState\<close>. Awaiting the composed exit hook is observed as one \<open>ExitHook\<close> event
  for each builder whose hook runs, with the destination it is given.
\<close>

definition resetAndHide :: "string \<Rightarrow> FocusManager \<Rightarrow> FocusManager" where
  "resetAndHide layerName fm =
     (case getNode layerName (uiLayerManager fm) of
        Some t \<Rightarrow>
          (logged (resetEvents t) fm)
            \<lparr>uiLayerManager :=
               map (updateNode layerName (\<lambda>t. onLabel hideLayer (resetNode t))) (uiLayerManager fm)\<rparr>
      | None \<Rightarrow>
          logged [Logged ''warn'' (''Could not find layer \"'' @ layerName @ ''\" to reset on exit.'')] fm)"

definition clearLayerListeners :: "string \<Rightarrow> FocusManager \<Rightarrow> FocusManager" where
  "clearLayerListeners layerName fm =
     (case get layerName (uiLayerManager fm) of
        Some l \<Rightarrow>
          (logged (snd (clearListeners l)) fm)
            \<lparr>uiLayerManager := updateLayer layerName (\<lambda>l. fst (clearListeners l)) (uiLayerManager fm)\<rparr>
      | None \<Rightarrow> fm)"

definition exitState :: "string \<Rightarrow> string \<Rightarrow> FocusManager \<Rightarrow> FocusManager" where
  "exitState stateNameToExit nextStateName fm =
     (case map_of (states fm) stateNameToExit of
        None \<Rightarrow> fm
      | Some oldStateConfig \<Rightarrow>
          (let fm1 = logged (map (\<lambda>owner. ExitHook owner nextStateName) (awaitHook (onExit oldStateConfig))) fm;
               layersToPreserve = orEmpty (uiField oldStateConfig preserveOnExit);
               visibleLayers = orEmpty (uiField oldStateConfig visible);
               fm2 = fold (\<lambda>layerName f. if layerName \<notin> set layersToPreserve then resetAndHide layerName f else f)
                       visibleLayers fm1
           in fold clearLayerListeners (orEmpty (uiField oldStateConfig cleanupOnExit)) fm2))"

text \<open>
  \<open>_updateUiVisibility\<close>. With a current state that is not registered the source
  reads a property of \<open>undefined\<close>, which is a \<open>TypeError\<close>.
\<close>

definition updateUiVisibility :: "FocusManager \<Rightarrow> error + FocusManager" where
  "updateUiVisibility fm =
     (case current fm of
        None \<Rightarrow>
          Inr (fm\<lparr>uiLayerManager := fold (\<lambda>layerName. updateLayer layerName hideLayer)
                                      (managedLayers fm) (uiLayerManager fm)\<rparr>)
      | Some currentStateName \<Rightarrow>
          (case map_of (states fm) currentStateName of
             None \<Rightarrow> Inl (TypeError ''Cannot read properties of undefined (reading ui)'')
           | Some currentStateConfig \<Rightarrow>
               (let visibleLayers = orEmpty (uiField currentStateConfig visible)
                in Inr (fm\<lparr>uiLayerManager :=
                             fold (\<lambda>layerName. updateLayer layerName
                                     (if layerName \<in> set visibleLayers then showLayer else hideLayer))
                               (managedLayers fm) (uiLayerManager fm)\<rparr>))))"


text \<open>
  The loop of \<open>switch\<close> that exits every state of the stack, from the top down, each with
  the final destination.
\<close>

function exitStack :: "string \<Rightarrow> FocusManager \<Rightarrow> FocusManager" where
  "exitStack n fm =
     (if stateStack fm \<noteq> [] then
        (let fm1 = exitState (last (stateStack fm)) n fm
         in exitStack n (fm1\<lparr>stateStack := butlast (stateStack fm1)\<rparr>))
      else fm)"
  by pat_completeness auto
termination
proof (relation "measure (\<lambda>(n, fm). length (stateStack fm))")
  show "wf (measure (\<lambda>(n, fm). length (stateStack fm)))"
    by simp
next
  fix n :: string and fm fm1 :: FocusManager
  assume ne: "stateStack fm \<noteq> []" and fm1: "fm1 = exitState (last (stateStack fm)) n fm"
  have keep: "stateStack (fold g xs f) = stateStack f"
    if "\<And>x f'. stateStack (g x f') = stateStack f'"
    for g :: "string \<Rightarrow> FocusManager \<Rightarrow> FocusManager" and xs f
    using that by (induction xs arbitrary: f) simp_all
  have r: "stateStack (resetAndHide x f) = stateStack f" for x f
    by (simp add: resetAndHide_def logged_def split: option.splits)
  have c: "stateStack (clearLayerListeners x f) = stateStack f" for x f
    by (simp add: clearLayerListeners_def logged_def split: option.splits)
  have "stateStack (exitState a b f) = stateStack f" for a b f
    by (simp add: exitState_def Let_def keep r c logged_def split: option.splits)
  with ne fm1 show "((n, fm1\<lparr>stateStack := butlast (stateStack fm1)\<rparr>), (n, fm))
      \<in> measure (\<lambda>(n, fm). length (stateStack fm))"
    by simp
qed

declare exitStack.simps [simp del]

definition durationOr300 :: "int option \<Rightarrow> int" where
  "durationOr300 d = (case d of None \<Rightarrow> 300 | Some ms \<Rightarrow> ms)"

text \<open>
  Awaiting the composed enter hook of a configuration is observed as one \<open>EnterHook\<close>
  event for each builder whose hook runs, with the payload.
\<close>

definition awaitOnEnter :: "FocusStateConfig \<Rightarrow> string option \<Rightarrow> FocusManager \<Rightarrow> FocusManager" where
  "awaitOnEnter config payload fm =
     logged (map (\<lambda>owner. EnterHook owner payload) (awaitHook (onEnter config))) fm"

text \<open>
  \<open>switch\<close>, \<open>push\<close> and \<open>pop\<close>. They are asynchronous; each is run here from its
  call to its return with nothing else in between (the stack is mutated under sequential
  execution per instance), the yield to the next frame is observed as \<open>NextFrame\<close>, and
  the hooks and effects that are awaited complete normally.
\<close>

definition switch :: "string \<Rightarrow> string option \<Rightarrow> FocusManager \<Rightarrow> error + FocusManager" where
  "switch n payload fm =
     (if current fm = Some n \<and> length (stateStack fm) = 1 then Inr fm
      else (case map_of (states fm) n of
              None \<Rightarrow>
                Inr (logged [Logged ''error'' (''Attempted to switch to unregistered state '' @ quoted n @ ''.'')] fm)
            | Some newStateConfig \<Rightarrow>
                (let fm1 = logged [NextFrame] fm;
                     previousStateName = current fm1
                 in case getTransitionEffect (transitionEffectName newStateConfig) fm1 of
                      (transition, evs) \<Rightarrow>
                        (let durationMs = durationOr300 (transitionDuration newStateConfig);
                             fm2 = deactivateStateKeyListeners (deactivateStateEventListeners (logged evs fm1));
                             fm3 = transitionOnExit transition previousStateName n durationMs fm2;
                             fm4 = exitStack n fm3;
                             fm5 = fm4\<lparr>stateStack := stateStack fm4 @ [n]\<rparr>;
                             fm6 = emitSwitchEvent n previousStateName fm5;
                             fm7 = activateStateKeyListeners n (activateStateEventListeners n fm6)
                         in case updateUiVisibility fm7 of
                              Inl e \<Rightarrow> Inl e
                            | Inr fm8 \<Rightarrow>
                                Inr (transitionOnEnter transition n previousStateName durationMs
                                       (awaitOnEnter newStateConfig payload fm8))))))"

definition push :: "string \<Rightarrow> string option \<Rightarrow> FocusManager \<Rightarrow> error + FocusManager" where
  "push n payload fm =
     (if current fm = Some n then Inr fm
      else (case map_of (states fm) n of
              None \<Rightarrow>
                Inr (logged [Logged ''error'' (''Attempted to push unregistered state '' @ quoted n @ ''.'')] fm)
            | Some newStateConfig \<Rightarrow>
                (let fm1 = logged [NextFrame] fm;
                     previousStateName = current fm1
                 in case getTransitionEffect (transitionEffectName newStateConfig) fm1 of
                      (transition, evs) \<Rightarrow>
                        (let durationMs = durationOr300 (transitionDuration newStateConfig);
                             fm2 = deactivateStateKeyListeners (deactivateStateEventListeners (logged evs fm1));
                             fm3 = transitionOnExit transition previousStateName n durationMs fm2;
                             fm5 = fm3\<lparr>stateStack := stateStack fm3 @ [n]\<rparr>;
                             fm6 = emitSwitchEvent n previousStateName fm5;
                             fm7 = activateStateKeyListeners n (activateStateEventListeners n fm6)
                         in case updateUiVisibility fm7 of
                              Inl e \<Rightarrow> Inl e
                            | Inr fm8 \<Rightarrow>
                                Inr (transitionOnEnter transition n previousStateName durationMs
                                       (awaitOnEnter newStateConfig payload fm8))))))"

text \<open>
  In \<open>pop\<close> the stack has at least two entries when \<open>this.current!\<close> is read after the
  top has been removed, so it is a name; with a top that is not registered the source
  reads a property of \<open>undefined\<close>.
\<close>

definition pop :: "FocusManager \<Rightarrow> error + FocusManager" where
  "pop fm =
     (if length (stateStack fm) \<le> 1 then
        Inr (logged [Logged ''warn''
               ''Cannot pop the last state from the stack. Use switch() to change the base state.''] fm)
      else
        (let fm1 = logged [NextFrame] fm;
             stateToPopName = last (stateStack fm1);
             stateToResumeName = stateStack fm1 ! (length (stateStack fm1) - 2)
         in case map_of (states fm1) stateToPopName of
              None \<Rightarrow> Inl (TypeError ''Cannot read properties of undefined (reading transitionEffectName)'')
            | Some stateToPopConfig \<Rightarrow>
                (case getTransitionEffect (transitionEffectName stateToPopConfig) fm1 of
                   (transition, evs) \<Rightarrow>
                     (let durationMs = durationOr300 (transitionDuration stateToPopConfig);
                          fm2 = deactivateStateKeyListeners (deactivateStateEventListeners (logged evs fm1));
                          fm3 = transitionOnExit transition (Some stateToPopName) stateToResumeName durationMs fm2;
                          fm4 = exitState stateToPopName stateToResumeName fm3;
                          fm5 = fm4\<lparr>stateStack := butlast (stateStack fm4)\<rparr>;
                          cur = last (stateStack fm5);
                          fm6 = emitSwitchEvent cur (Some stateToPopName) fm5;
                          fm7 = activateStateKeyListeners cur (activateStateEventListeners cur fm6)
                      in case updateUiVisibility fm7 of
                           Inl e \<Rightarrow> Inl e
                         | Inr fm8 \<Rightarrow>
                             Inr (transitionOnEnter transition cur (Some stateToPopName) durationMs fm8)))))"

text \<open>Sequences of transitions, each run to its end before the next is called.\<close>

datatype transition_op = Switch string "string option" | Push string "string option" | Pop

fun applyOp :: "transition_op \<Rightarrow> FocusManager \<Rightarrow> error + FocusManager" where
  "applyOp (Switch n payload) fm = switch n payload fm"
| "applyOp (Push n payload) fm = push n payload fm"
| "applyOp Pop fm = pop fm"

fun runOps :: "transition_op list \<Rightarrow> FocusManager \<Rightarrow> error + FocusManager" where
  "runOps [] fm = Inr fm"
| "runOps (x # xs) fm = (case applyOp x fm of Inl e \<Rightarrow> Inl e | Inr fm' \<Rightarrow> runOps xs fm')"


section \<open>The composed hooks of a builder under interleaving (src/FocusState.ts: build, withPrefabs)\<close>

text \<open>
  The functions that \<open>build\<close> composes are asynchronous: \<open>onEnter\<close> is suspended at
  every \<open>await\<close>, and other code, such as the \<open>onExit\<close> of the same builder, may run
  in between. A run of \<open>onEnter\<close> is therefore a program counter with the entry version
  captured at its start, and is advanced one synchronous segment at a time.

  The world of a builder: the builder (its \<open>_entryVersion\<close> changes), the variable
  \<open>instantiatedPrefabs\<close> of every \<open>withPrefabs\<close> call (by slot), the prefab instances
  that exist in the scene, the layer tree, and the record of what has been observed.
\<close>

record World =
  builder :: FocusState
  slots :: "(nat \<times> nat list) list"
  scene :: "nat list"
  nextInstance :: nat
  hostContainer :: bool
  wUi :: UILayerManager
  wTrace :: "event list"

definition newWorld :: "FocusState \<Rightarrow> UILayerManager \<Rightarrow> World" where
  "newWorld st m = \<lparr>builder = st, slots = [], scene = [], nextInstance = 0, hostContainer = True,
     wUi = m, wTrace = []\<rparr>"

text \<open>
  Modelled from the spec: \<open>PrefabUtil\<close> (src/utils/PrefabUtil.ts is not among the
  sources), the external resource manager of section 6 with \<open>instantiate(name) -> handle\<close>
  and \<open>destroy(handle, disposeAssets)\<close>: \<open>instantiateMultiple\<close> resolves with one new
  handle for each name, which is in the scene from then on; \<open>destroy\<close> takes a handle out
  of the scene.
\<close>

definition instantiateMultiple :: "string list \<Rightarrow> World \<Rightarrow> World \<times> nat list" where
  "instantiateMultiple names w =
     (let instances = [nextInstance w ..< nextInstance w + length names]
      in (w\<lparr>scene := scene w @ instances, nextInstance := nextInstance w + length names\<rparr>, instances))"

text \<open>
  Modelled from the spec: \<open>PrefabUtil.destroy(handle, disposeAssets)\<close> of the same
  external resource manager.
\<close>

definition destroyPrefab :: "nat \<Rightarrow> World \<Rightarrow> World" where
  "destroyPrefab instance w = w\<lparr>scene := removeAll instance (scene w)\<rparr>"

definition slotOf :: "nat \<Rightarrow> World \<Rightarrow> nat list" where
  "slotOf slot w = orEmpty (map_of (slots w) slot)"

datatype enter_pc =
    NotStarted
  | InUser nat
  | InInstantiate nat nat nat "string list"
  | Finished
  | Rejected error

text \<open>
  The last step of the composed \<open>onEnter\<close>: the delegated listeners and then the
  container listeners, each on the layer that \<open>uiLayerManager.find\<close> gives, which throws
  for a name without a layer.
\<close>

fun attachDelegated :: "StateDelegatedListener list \<Rightarrow> World \<Rightarrow> World \<times> error option" where
  "attachDelegated [] w = (w, None)"
| "attachDelegated (d # ds) w =
     (case find (sdLayerName d) (wUi w) of
        Inl e \<Rightarrow> (w, Some e)
      | Inr l \<Rightarrow>
          attachDelegated ds
            (w\<lparr>wUi := updateLayer (sdLayerName d) (on (sdEventType d) (sdSelector d) (sdCallback d)) (wUi w)\<rparr>))"

fun attachContainer :: "ContainerListener list \<Rightarrow> World \<Rightarrow> World \<times> error option" where
  "attachContainer [] w = (w, None)"
| "attachContainer (c # cs) w =
     (case find (clLayerName c) (wUi w) of
        Inl e \<Rightarrow> (w, Some e)
      | Inr l \<Rightarrow>
          attachContainer cs
            (w\<lparr>wUi := updateLayer (clLayerName c)
                       (\<lambda>l. fst (onContainer (hostContainer w) (clEventType c) (clCallback c) l)) (wUi w),
               wTrace := wTrace w @ snd (onContainer (hostContainer w) (clEventType c) (clCallback c) l)\<rparr>))"

definition finalStep :: "nat \<Rightarrow> World \<Rightarrow> World \<times> enter_pc" where
  "finalStep entryVersionAtStart w =
     (if entryVersionAtStart \<noteq> entryVersion (builder w) then
        (w\<lparr>wTrace := wTrace w @
             [Logged ''ui'' (''Listener attachment cancelled for state '' @ quoted (stName (builder w)) @
                '' due to rapid state change.'')]\<rparr>, Finished)
      else (case attachDelegated (stDelegatedListeners (builder w)) w of
              (w1, Some e) \<Rightarrow> (w1, Rejected e)
            | (w1, None) \<Rightarrow>
                (case attachContainer (containerListeners (builder w1)) w1 of
                   (w2, Some e) \<Rightarrow> (w2, Rejected e)
                 | (w2, None) \<Rightarrow> (w2, Finished))))"

text \<open>
  The loop of the composed \<open>onEnter\<close> arriving at hook \<open>i\<close>: the hook is called and runs
  to its first \<open>await\<close> (a function of the user's is awaited as a whole; the hook of
  \<open>withPrefabs\<close> captures the entry version, empties its variable and awaits the
  instantiation); after the last hook comes the final step.
\<close>

definition startHook :: "nat \<Rightarrow> nat \<Rightarrow> World \<Rightarrow> World \<times> enter_pc" where
  "startHook entryVersionAtStart i w =
     (if i < length (onEnterHooks (builder w)) then
        (case onEnterHooks (builder w) ! i of
           UserEnter cb \<Rightarrow>
             (case call cb [] of
                (evs, None) \<Rightarrow> (w\<lparr>wTrace := wTrace w @ evs\<rparr>, InUser i)
              | (evs, Some e) \<Rightarrow> (w\<lparr>wTrace := wTrace w @ evs\<rparr>, Rejected e))
         | PrefabsEnter slot prefabNames \<Rightarrow>
             (w\<lparr>slots := mapSet slot [] (slots w)\<rparr>,
              InInstantiate i (entryVersion (builder w)) slot prefabNames))
      else finalStep entryVersionAtStart w)"

text \<open>
  The hook of \<open>withPrefabs\<close> resumed with the instances: if the entry version is not the
  one it captured, the instances are destroyed; otherwise they are added to the managed list.
\<close>

definition afterInstantiate :: "nat \<Rightarrow> nat \<Rightarrow> string list \<Rightarrow> World \<Rightarrow> World" where
  "afterInstantiate entryVersionForThisHook slot prefabNames w =
     (case instantiateMultiple prefabNames w of
        (w1, instances) \<Rightarrow>
          (if entryVersionForThisHook \<noteq> entryVersion (builder w1) then
             fold destroyPrefab instances
               (w1\<lparr>wTrace := wTrace w1 @
                    [Logged ''prefab'' (''Instantiation cancelled for state '' @ quoted (stName (builder w1)) @
                       '' due to rapid state change. Cleaning up.'')]\<rparr>)
           else w1\<lparr>slots := mapSet slot (slotOf slot w1 @ instances) (slots w1)\<rparr>))"

fun resumeEnter :: "World \<Rightarrow> nat \<times> enter_pc \<Rightarrow> World \<times> (nat \<times> enter_pc)" where
  "resumeEnter w (v, NotStarted) =
     (case startHook (entryVersion (builder w)) 0 w of (w1, pc1) \<Rightarrow> (w1, (entryVersion (builder w), pc1)))"
| "resumeEnter w (v, InUser i) = (case startHook v (Suc i) w of (w1, pc1) \<Rightarrow> (w1, (v, pc1)))"
| "resumeEnter w (v, InInstantiate i hv slot prefabNames) =
     (case startHook v (Suc i) (afterInstantiate hv slot prefabNames w) of (w1, pc1) \<Rightarrow> (w1, (v, pc1)))"
| "resumeEnter w (v, Finished) = (w, (v, Finished))"
| "resumeEnter w (v, Rejected e) = (w, (v, Rejected e))"

text \<open>
  The composed \<open>onExit\<close>: it increments the entry version when it is called, and then
  awaits the exit hooks in turn; the exit hook of \<open>withPrefabs\<close> destroys the instances
  of its managed list and empties it.
\<close>

datatype exit_pc = XNotStarted | XInHook nat | XFinished | XRejected error

definition startExitHook :: "string \<Rightarrow> nat \<Rightarrow> World \<Rightarrow> World \<times> exit_pc" where
  "startExitHook nextStateName i w =
     (if i < length (onExitHooks (builder w)) then
        (case onExitHooks (builder w) ! i of
           UserExit cb \<Rightarrow>
             (case call cb [nextStateName] of
                (evs, None) \<Rightarrow> (w\<lparr>wTrace := wTrace w @ evs\<rparr>, XInHook i)
              | (evs, Some e) \<Rightarrow> (w\<lparr>wTrace := wTrace w @ evs\<rparr>, XRejected e))
         | PrefabsExit slot \<Rightarrow>
             ((fold destroyPrefab (slotOf slot w) w)\<lparr>slots := mapSet slot [] (slots w)\<rparr>, XInHook i))
      else (w, XFinished))"

definition callExit :: "string \<Rightarrow> World \<Rightarrow> World \<times> exit_pc" where
  "callExit nextStateName w =
     startExitHook nextStateName 0
       (w\<lparr>builder := (builder w)\<lparr>entryVersion := entryVersion (builder w) + 1\<rparr>\<rparr>)"

fun resumeExit :: "string \<Rightarrow> World \<Rightarrow> exit_pc \<Rightarrow> World \<times> exit_pc" where
  "resumeExit nextStateName w (XInHook i) = startExitHook nextStateName (Suc i) w"
| "resumeExit nextStateName w pc = (w, pc)"

text \<open>
  One run of \<open>onEnter\<close> and one of \<open>onExit\<close> of a builder, advanced in the order that a
  schedule gives.
\<close>

record Sys =
  world :: World
  enterRun :: "nat \<times> enter_pc"
  exitRun :: exit_pc

datatype sched = CallEnter | ResumeEnter | CallExit string | ResumeExit string

definition newSys :: "World \<Rightarrow> Sys" where
  "newSys w = \<lparr>world = w, enterRun = (0, NotStarted), exitRun = XNotStarted\<rparr>"

fun sysStep :: "sched \<Rightarrow> Sys \<Rightarrow> Sys" where
  "sysStep CallEnter s =
     (case resumeEnter (world s) (0, NotStarted) of (w, r) \<Rightarrow> s\<lparr>world := w, enterRun := r\<rparr>)"
| "sysStep ResumeEnter s =
     (if snd (enterRun s) = NotStarted then s
      else (case resumeEnter (world s) (enterRun s) of (w, r) \<Rightarrow> s\<lparr>world := w, enterRun := r\<rparr>))"
| "sysStep (CallExit nextStateName) s =
     (case callExit nextStateName (world s) of (w, x) \<Rightarrow> s\<lparr>world := w, exitRun := x\<rparr>)"
| "sysStep (ResumeExit nextStateName) s =
     (case resumeExit nextStateName (world s) (exitRun s) of (w, x) \<Rightarrow> s\<lparr>world := w, exitRun := x\<rparr>)"

definition sysRun :: "sched list \<Rightarrow> Sys \<Rightarrow> Sys" where
  "sysRun schedule s = fold sysStep schedule s"


section \<open>Notions used by the properties\<close>

text \<open>
  The lifecycle events of a record: the composed hooks that were awaited and the phases of
  the transition effects that were run, in order.
\<close>

fun isHookEvent :: "event \<Rightarrow> bool" where
  "isHookEvent (EnterHook owner payload) = True"
| "isHookEvent (ExitHook owner nextStateName) = True"
| "isHookEvent (EffectExit n fromState toState durationMs) = True"
| "isHookEvent (EffectEnter n currentState previousState durationMs) = True"
| "isHookEvent e = False"

definition hookEvents :: "event list \<Rightarrow> event list" where
  "hookEvents evs = filter isHookEvent evs"

fun isLogged :: "event \<Rightarrow> bool" where
  "isLogged (Logged category title) = True"
| "isLogged e = False"

text \<open>What running a cleanup task is observed as.\<close>

fun taskRan :: "task \<Rightarrow> event" where
  "taskRan (UserTask cb) = Invoked (cbId cb) []"
| "taskRan (RemoveContainerListener et cb) = HostListenerRemoved et (cbId cb)"

text \<open>The composed exit hooks that exiting a state awaits (none for a name that is not registered).\<close>

definition exitRuns :: "FocusManager \<Rightarrow> string \<Rightarrow> string list" where
  "exitRuns fm s = (case map_of (states fm) s of None \<Rightarrow> [] | Some c \<Rightarrow> awaitHook (onExit c))"

text \<open>The effect that a transition with the configuration \<open>c\<close> uses, and what its phases are observed as.\<close>

definition effectOf :: "FocusManager \<Rightarrow> FocusStateConfig \<Rightarrow> (string \<times> effect) option" where
  "effectOf fm c = fst (getTransitionEffect (transitionEffectName c) fm)"

definition effectExitEvents :: "(string \<times> effect) option \<Rightarrow> string option \<Rightarrow> string \<Rightarrow> int \<Rightarrow> event list" where
  "effectExitEvents tr fromState toState durationMs =
     (case tr of None \<Rightarrow> [] | Some (n, e) \<Rightarrow> [EffectExit n fromState toState durationMs])"

definition effectEnterEvents :: "(string \<times> effect) option \<Rightarrow> string \<Rightarrow> string option \<Rightarrow> int \<Rightarrow> event list" where
  "effectEnterEvents tr currentState previousState durationMs =
     (case tr of None \<Rightarrow> [] | Some (n, e) \<Rightarrow> [EffectEnter n currentState previousState durationMs])"

text \<open>The loop of \<open>_updateUiVisibility\<close> over the managed layers, for a given \<open>visible\<close> list.\<close>

definition sweep :: "string list \<Rightarrow> string list \<Rightarrow> UILayerManager \<Rightarrow> UILayerManager" where
  "sweep vis managed m =
     fold (\<lambda>layerName. updateLayer layerName (if layerName \<in> set vis then showLayer else hideLayer)) managed m"

text \<open>Every name on the stack is registered: \<open>switch\<close> and \<open>push\<close> enter registered states only.\<close>

definition stackRegistered :: "FocusManager \<Rightarrow> bool" where
  "stackRegistered fm \<longleftrightarrow> (\<forall>s \<in> set (stateStack fm). mapHas s (states fm))"






definition isHidden :: "FocusManager \<Rightarrow> string \<Rightarrow> bool" where
  "isHidden fm n = (case get n (uiLayerManager fm) of None \<Rightarrow> False | Some l \<Rightarrow> display l = ''none'')"

definition topVisible :: "FocusManager \<Rightarrow> string list" where
  "topVisible fm =
     (case current fm of
        None \<Rightarrow> []
      | Some s \<Rightarrow> (case map_of (states fm) s of None \<Rightarrow> [] | Some c \<Rightarrow> orEmpty (uiField c visible)))"

text \<open>
  The exception of a dispatch is handled when none leaves the dispatch and the record
  has a log entry.
\<close>

definition handled :: "event list \<times> error option \<Rightarrow> bool" where
  "handled r \<longleftrightarrow> snd r = None \<and> filter isLogged (fst r) \<noteq> []"

text \<open>A call that is a transition: it is not refused and is not the no-op of its guard.\<close>

fun transitions :: "transition_op \<Rightarrow> FocusManager \<Rightarrow> bool" where
  "transitions (Switch n payload) fm =
     (mapHas n (states fm) \<and> \<not> (current fm = Some n \<and> length (stateStack fm) = 1))"
| "transitions (Push n payload) fm = (mapHas n (states fm) \<and> current fm \<noteq> Some n)"
| "transitions Pop fm = (2 \<le> length (stateStack fm))"

section \<open>Concrete programs\<close>

text \<open>
  Programs against the API, used to run the definitions: builders are registered with a
  new manager in turn, and transitions are then called one after the other.
\<close>

definition bindE :: "error + 'a \<Rightarrow> ('a \<Rightarrow> error + 'b) \<Rightarrow> error + 'b" where
  "bindE r f = (case r of Inl e \<Rightarrow> Inl e | Inr x \<Rightarrow> f x)"

definition registerAll :: "FocusState list \<Rightarrow> FocusManager \<Rightarrow> error + FocusManager" where
  "registerAll sts fm = fold (\<lambda>st r. bindE r (register st)) sts (Inr fm)"

definition exampleRun :: "FocusState list \<Rightarrow> transition_op list \<Rightarrow> error + FocusManager" where
  "exampleRun sts ops = bindE (registerAll sts newFocusManager) (runOps ops)"

definition example :: "FocusState list \<Rightarrow> transition_op list \<Rightarrow> FocusManager" where
  "example sts ops = projr (exampleRun sts ops)"

definition resolvedOf :: "string \<Rightarrow> FocusManager \<Rightarrow> FocusStateConfig option" where
  "resolvedOf n fm = map_of (states fm) n"

text \<open>A chain of three builders with one enter hook each: \<open>A\<close>, \<open>B extends A\<close>, \<open>C extends B\<close>.\<close>

definition chainABC :: "FocusState list" where
  "chainABC =
     [stOnEnter (Callback 1 None) (newFocusState ''A''),
      stOnEnter (Callback 2 None) (stExtends ''A'' (newFocusState ''B'')),
      stOnEnter (Callback 3 None) (stExtends ''B'' (newFocusState ''C''))]"

text \<open>A key handler whose callback throws.\<close>

definition throwingEscape :: KeyHandler where
  "throwingEscape = KeyHandler ''game'' 0
     \<lparr>klEventType = ''keydown'', klKey = ''Escape'', klCallback = Callback 7 (Some (Error ''boom''))\<rparr>"







definition prefabOnly :: FocusState where
  "prefabOnly = withPrefabs [''X''] (newFocusState ''game'')"

definition exitDuringInstantiation :: "sched list" where
  "exitDuringInstantiation = [CallEnter, CallExit ''menu'', ResumeExit ''menu'', ResumeEnter]"




definition transitionLayerVisible :: "FocusState list" where
  "transitionLayerVisible =
     [stUi (emptyUI\<lparr>visible := Some [''focus-transition-layer'']\<rparr>)
        (withTransition ''fade'' None (newFocusState ''curtain''))]"





section \<open>Lemmas: what each step keeps and what it adds to the record\<close>

lemma hookEvents_append [simp]: "hookEvents (xs @ ys) = hookEvents xs @ hookEvents ys"
  by (simp add: hookEvents_def)

lemma hookEvents_Nil [simp]: "hookEvents [] = []"
  by (simp add: hookEvents_def)

lemma hookEvents_Cons [simp]:
  "hookEvents (e # xs) = (if isHookEvent e then e # hookEvents xs else hookEvents xs)"
  by (simp add: hookEvents_def)

lemma fold_keeps: "(\<And>x s. h (g x s) = h s) \<Longrightarrow> h (fold g xs s) = h s"
  by (induction xs arbitrary: s) simp_all

lemma hookEvents_runTask [simp]: "runTask a = (evs, r) \<Longrightarrow> hookEvents evs = []"
  by (cases a) (auto simp: call_def)

lemma hookEvents_runCleanupTasks [simp]: "hookEvents (runCleanupTasks ts) = []"
  by (induction ts) (auto split: option.splits prod.splits)

lemma hookEvents_clearListeners [simp]: "hookEvents (snd (clearListeners l)) = []"
  by (simp add: clearListeners_def Let_def)

lemma hookEvents_destroyEvents [simp]: "hookEvents (destroyEvents t) = []"
proof (induction t)
  case (Node l cs)
  have "hookEvents (concat (map destroyEvents cs)) = []"
    using Node by (induction cs) auto
  then show ?case by simp
qed

lemma hookEvents_resetEvents [simp]: "hookEvents (resetEvents t) = []"
proof -
  have "hookEvents (concat (map destroyEvents cs)) = []" for cs
    by (induction cs) auto
  then show ?thesis by (simp add: resetEvents_def)
qed

lemma hookEvents_runSwitchListeners [simp]: "hookEvents (runSwitchListeners args ls) = []"
  by (induction ls) (auto simp: call_def split: option.splits)

lemma logged_simps [simp]:
  "stateStack (logged e fm) = stateStack fm"
  "states (logged e fm) = states fm"
  "managedLayers (logged e fm) = managedLayers fm"
  "uiLayerManager (logged e fm) = uiLayerManager fm"
  "transitionEffects (logged e fm) = transitionEffects fm"
  "trace (logged e fm) = trace fm @ e"
  by (simp_all add: logged_def)

lemma current_logged [simp]: "current (logged e fm) = current fm"
  by (simp add: current_def)

lemma deactE_simps [simp]:
  "stateStack (deactivateStateEventListeners fm) = stateStack fm"
  "states (deactivateStateEventListeners fm) = states fm"
  "managedLayers (deactivateStateEventListeners fm) = managedLayers fm"
  "uiLayerManager (deactivateStateEventListeners fm) = uiLayerManager fm"
  "transitionEffects (deactivateStateEventListeners fm) = transitionEffects fm"
  "hookEvents (trace (deactivateStateEventListeners fm)) = hookEvents (trace fm)"
  by (simp_all add: deactivateStateEventListeners_def)

lemma deactK_simps [simp]:
  "stateStack (deactivateStateKeyListeners fm) = stateStack fm"
  "states (deactivateStateKeyListeners fm) = states fm"
  "managedLayers (deactivateStateKeyListeners fm) = managedLayers fm"
  "uiLayerManager (deactivateStateKeyListeners fm) = uiLayerManager fm"
  "transitionEffects (deactivateStateKeyListeners fm) = transitionEffects fm"
  "hookEvents (trace (deactivateStateKeyListeners fm)) = hookEvents (trace fm)"
  by (simp_all add: deactivateStateKeyListeners_def)

lemma actE_simps [simp]:
  "stateStack (activateStateEventListeners n fm) = stateStack fm"
  "states (activateStateEventListeners n fm) = states fm"
  "managedLayers (activateStateEventListeners n fm) = managedLayers fm"
  "uiLayerManager (activateStateEventListeners n fm) = uiLayerManager fm"
  "transitionEffects (activateStateEventListeners n fm) = transitionEffects fm"
  "hookEvents (trace (activateStateEventListeners n fm)) = hookEvents (trace fm)"
  by (simp_all add: activateStateEventListeners_def Let_def fold_keeps split_def split: option.splits)

lemma actK_simps [simp]:
  "stateStack (activateStateKeyListeners n fm) = stateStack fm"
  "states (activateStateKeyListeners n fm) = states fm"
  "managedLayers (activateStateKeyListeners n fm) = managedLayers fm"
  "uiLayerManager (activateStateKeyListeners n fm) = uiLayerManager fm"
  "transitionEffects (activateStateKeyListeners n fm) = transitionEffects fm"
  "hookEvents (trace (activateStateKeyListeners n fm)) = hookEvents (trace fm)"
  by (simp_all add: activateStateKeyListeners_def Let_def fold_keeps split_def split: option.splits)


lemma resetAndHide_simps [simp]:
  "stateStack (resetAndHide x fm) = stateStack fm"
  "states (resetAndHide x fm) = states fm"
  "managedLayers (resetAndHide x fm) = managedLayers fm"
  "transitionEffects (resetAndHide x fm) = transitionEffects fm"
  "hookEvents (trace (resetAndHide x fm)) = hookEvents (trace fm)"
  by (simp_all add: resetAndHide_def split: option.splits)

lemma clearLayerListeners_simps [simp]:
  "stateStack (clearLayerListeners x fm) = stateStack fm"
  "states (clearLayerListeners x fm) = states fm"
  "managedLayers (clearLayerListeners x fm) = managedLayers fm"
  "transitionEffects (clearLayerListeners x fm) = transitionEffects fm"
  "hookEvents (trace (clearLayerListeners x fm)) = hookEvents (trace fm)"
  by (simp_all add: clearLayerListeners_def split: option.splits)

lemma exitState_simps [simp]:
  "stateStack (exitState a b fm) = stateStack fm"
  "states (exitState a b fm) = states fm"
  "managedLayers (exitState a b fm) = managedLayers fm"
  "transitionEffects (exitState a b fm) = transitionEffects fm"
  by (simp_all add: exitState_def Let_def fold_keeps split: option.splits)

lemma hookEvents_map_ExitHook [simp]:
  "hookEvents (map (\<lambda>owner. ExitHook owner d) os) = map (\<lambda>owner. ExitHook owner d) os"
  by (induction os) simp_all

lemma hookEvents_map_EnterHook [simp]:
  "hookEvents (map (\<lambda>owner. EnterHook owner p) os) = map (\<lambda>owner. EnterHook owner p) os"
  by (induction os) simp_all

lemma exitState_trace:
  "hookEvents (trace (exitState a b fm)) =
     hookEvents (trace fm) @ map (\<lambda>owner. ExitHook owner b) (exitRuns fm a)"
proof (cases "map_of (states fm) a")
  case None
  then show ?thesis by (simp add: exitState_def exitRuns_def)
next
  case (Some c)
  have k1: "hookEvents (trace (fold (\<lambda>layerName f. if layerName \<notin> set P then resetAndHide layerName f else f) xs s))
      = hookEvents (trace s)" for P xs s
    by (rule fold_keeps) simp
  have k2: "hookEvents (trace (fold clearLayerListeners xs s)) = hookEvents (trace s)" for xs s
    by (rule fold_keeps) simp
  show ?thesis
    using Some by (simp add: exitState_def exitRuns_def Let_def k1 k2)
qed

lemma exitStack_keeps:
  assumes "\<And>a b f. h (exitState a b f) = h f"
    and "\<And>f xs. h (f\<lparr>stateStack := xs\<rparr>) = h f"
  shows "h (exitStack n fm) = h fm"
proof (induction n fm rule: exitStack.induct)
  case (1 n fm)
  show ?case
  proof (cases "stateStack fm = []")
    case True
    then show ?thesis by (subst exitStack.simps) simp
  next
    case False
    then show ?thesis
      using "1.IH"[OF False refl] by (subst exitStack.simps) (simp add: Let_def assms)
  qed
qed

lemma exitStack_stack [simp]: "stateStack (exitStack n fm) = []"
proof (induction n fm rule: exitStack.induct)
  case (1 n fm)
  show ?case
  proof (cases "stateStack fm = []")
    case True
    then show ?thesis by (subst exitStack.simps) simp
  next
    case False
    then show ?thesis
      using "1.IH"[OF False refl] by (subst exitStack.simps) (simp add: Let_def)
  qed
qed

lemma exitStack_simps [simp]:
  "states (exitStack n fm) = states fm"
  "managedLayers (exitStack n fm) = managedLayers fm"
  "transitionEffects (exitStack n fm) = transitionEffects fm"
  by (rule exitStack_keeps; simp)+

lemma exitStack_trace:
  "hookEvents (trace (exitStack n fm)) =
     hookEvents (trace fm) @
       concat (map (\<lambda>s. map (\<lambda>owner. ExitHook owner n) (exitRuns fm s)) (rev (stateStack fm)))"
proof (induction n fm rule: exitStack.induct)
  case (1 n fm)
  show ?case
  proof (cases "stateStack fm = []")
    case True
    then show ?thesis by (subst exitStack.simps) simp
  next
    case False
    define fm1 where "fm1 = exitState (last (stateStack fm)) n fm"
    define fm2 where "fm2 = fm1\<lparr>stateStack := butlast (stateStack fm1)\<rparr>"
    have runs: "exitRuns fm2 s = exitRuns fm s" for s
      by (simp add: exitRuns_def fm2_def fm1_def)
    have ih: "hookEvents (trace (exitStack n fm2)) =
        hookEvents (trace fm2) @
          concat (map (\<lambda>s. map (\<lambda>owner. ExitHook owner n) (exitRuns fm2 s)) (rev (stateStack fm2)))"
      using "1.IH"[OF False fm1_def] by (simp add: fm2_def)
    have t2: "hookEvents (trace fm2) =
        hookEvents (trace fm) @ map (\<lambda>owner. ExitHook owner n) (exitRuns fm (last (stateStack fm)))"
      by (simp add: fm2_def fm1_def exitState_trace)
    have st2: "stateStack fm2 = butlast (stateStack fm)"
      by (simp add: fm2_def fm1_def)
    have unf: "exitStack n fm = exitStack n fm2"
      using False by (subst exitStack.simps) (simp add: Let_def fm2_def fm1_def)
    have "rev (butlast (stateStack fm) @ [last (stateStack fm)]) =
        last (stateStack fm) # rev (butlast (stateStack fm))"
      by simp
    then have rv: "rev (stateStack fm) = last (stateStack fm) # rev (butlast (stateStack fm))"
      using False by simp
    show ?thesis
      by (simp add: unf ih t2 st2 runs rv)
  qed
qed


lemma hookEvents_getTransitionEffect [simp]: "hookEvents (snd (getTransitionEffect x fm)) = []"
  by (simp add: getTransitionEffect_def split: option.splits)

lemma getTransitionEffect_cong:
  "transitionEffects fm' = transitionEffects fm \<Longrightarrow> getTransitionEffect x fm' = getTransitionEffect x fm"
  by (simp add: getTransitionEffect_def split: option.splits)

lemma transitionOnExit_simps [simp]:
  "stateStack (transitionOnExit tr a b d fm) = stateStack fm"
  "states (transitionOnExit tr a b d fm) = states fm"
  "managedLayers (transitionOnExit tr a b d fm) = managedLayers fm"
  "transitionEffects (transitionOnExit tr a b d fm) = transitionEffects fm"
  "hookEvents (trace (transitionOnExit tr a b d fm)) = hookEvents (trace fm) @ effectExitEvents tr a b d"
  by (simp_all add: transitionOnExit_def effectExitEvents_def split: option.splits)

lemma transitionOnEnter_simps [simp]:
  "stateStack (transitionOnEnter tr a b d fm) = stateStack fm"
  "states (transitionOnEnter tr a b d fm) = states fm"
  "managedLayers (transitionOnEnter tr a b d fm) = managedLayers fm"
  "transitionEffects (transitionOnEnter tr a b d fm) = transitionEffects fm"
  "hookEvents (trace (transitionOnEnter tr a b d fm)) = hookEvents (trace fm) @ effectEnterEvents tr a b d"
  by (simp_all add: transitionOnEnter_def effectEnterEvents_def split: option.splits)

lemma emitSwitchEvent_simps [simp]:
  "stateStack (emitSwitchEvent a b fm) = stateStack fm"
  "states (emitSwitchEvent a b fm) = states fm"
  "managedLayers (emitSwitchEvent a b fm) = managedLayers fm"
  "uiLayerManager (emitSwitchEvent a b fm) = uiLayerManager fm"
  "transitionEffects (emitSwitchEvent a b fm) = transitionEffects fm"
  "hookEvents (trace (emitSwitchEvent a b fm)) = hookEvents (trace fm)"
  by (simp_all add: emitSwitchEvent_def)

lemma awaitOnEnter_simps [simp]:
  "stateStack (awaitOnEnter c p fm) = stateStack fm"
  "states (awaitOnEnter c p fm) = states fm"
  "managedLayers (awaitOnEnter c p fm) = managedLayers fm"
  "uiLayerManager (awaitOnEnter c p fm) = uiLayerManager fm"
  "transitionEffects (awaitOnEnter c p fm) = transitionEffects fm"
  "hookEvents (trace (awaitOnEnter c p fm)) =
     hookEvents (trace fm) @ map (\<lambda>owner. EnterHook owner p) (awaitHook (onEnter c))"
  by (simp_all add: awaitOnEnter_def)

lemma updateUiVisibility_registered:
  assumes "stateStack fm \<noteq> []" and "map_of (states fm) (last (stateStack fm)) = Some c"
  shows "updateUiVisibility fm =
    Inr (fm\<lparr>uiLayerManager := sweep (orEmpty (uiField c visible)) (managedLayers fm) (uiLayerManager fm)\<rparr>)"
  using assms by (simp add: updateUiVisibility_def current_def sweep_def Let_def)

lemma switch_run:
  assumes reg: "map_of (states fm) n = Some c"
    and go: "\<not> (current fm = Some n \<and> length (stateStack fm) = 1)"
  shows "\<exists>fm8. switch n p fm =
           Inr (transitionOnEnter (effectOf fm c) n (current fm) (durationOr300 (transitionDuration c))
                  (awaitOnEnter c p fm8)) \<and>
         stateStack fm8 = [n] \<and> states fm8 = states fm \<and> managedLayers fm8 = managedLayers fm \<and>
         transitionEffects fm8 = transitionEffects fm \<and>
         (\<exists>u. uiLayerManager fm8 = sweep (orEmpty (uiField c visible)) (managedLayers fm) u) \<and>
         hookEvents (trace fm8) = hookEvents (trace fm) @
           effectExitEvents (effectOf fm c) (current fm) n (durationOr300 (transitionDuration c)) @
           concat (map (\<lambda>s. map (\<lambda>owner. ExitHook owner n) (exitRuns fm s)) (rev (stateStack fm)))"
proof -
  obtain tr evs where g: "getTransitionEffect (transitionEffectName c) (logged [NextFrame] fm) = (tr, evs)"
    by (cases "getTransitionEffect (transitionEffectName c) (logged [NextFrame] fm)")
  have tr: "tr = effectOf fm c"
    using g getTransitionEffect_cong[of "logged [NextFrame] fm" fm "transitionEffectName c"]
    by (simp add: effectOf_def)
  have evs: "hookEvents evs = []"
    using hookEvents_getTransitionEffect[of "transitionEffectName c" "logged [NextFrame] fm"] g by simp
  define d where "d = durationOr300 (transitionDuration c)"
  define fm2 where "fm2 = deactivateStateKeyListeners (deactivateStateEventListeners (logged evs (logged [NextFrame] fm)))"
  define fm3 where "fm3 = transitionOnExit tr (current fm) n d fm2"
  define fm4 where "fm4 = exitStack n fm3"
  define fm7 where "fm7 = activateStateKeyListeners n (activateStateEventListeners n
     (emitSwitchEvent n (current fm) (fm4\<lparr>stateStack := stateStack fm4 @ [n]\<rparr>)))"
  define fm8 where "fm8 = fm7\<lparr>uiLayerManager := sweep (orEmpty (uiField c visible)) (managedLayers fm7) (uiLayerManager fm7)\<rparr>"
  have s7: "stateStack fm7 = [n]" "states fm7 = states fm" "managedLayers fm7 = managedLayers fm"
    by (simp_all add: fm7_def fm4_def fm3_def fm2_def)
  have u: "updateUiVisibility fm7 = Inr fm8"
    unfolding fm8_def by (rule updateUiVisibility_registered) (simp_all add: s7 reg)
  have runs: "exitRuns fm3 s = exitRuns fm s" for s
    by (simp add: exitRuns_def fm3_def fm2_def)
  have t7: "hookEvents (trace fm7) = hookEvents (trace fm) @ effectExitEvents tr (current fm) n d @
      concat (map (\<lambda>s. map (\<lambda>owner. ExitHook owner n) (exitRuns fm s)) (rev (stateStack fm)))"
    by (simp add: fm7_def fm4_def exitStack_trace runs) (simp add: fm3_def fm2_def evs)
  have ng: "(current fm = Some n \<and> length (stateStack fm) = Suc 0) = False"
    using go by simp
  have sw: "switch n p fm = Inr (transitionOnEnter tr n (current fm) d (awaitOnEnter c p fm8))"
    using reg g u
    by (simp add: switch_def Let_def fm7_def fm4_def fm3_def fm2_def d_def ng)
  show ?thesis
    apply (rule exI[of _ fm8])
    using sw t7 s7 by (auto simp: tr d_def fm8_def fm7_def fm4_def fm3_def fm2_def)
qed


lemma push_run:
  assumes reg: "map_of (states fm) n = Some c"
    and go: "current fm \<noteq> Some n"
  shows "\<exists>fm8. push n p fm =
           Inr (transitionOnEnter (effectOf fm c) n (current fm) (durationOr300 (transitionDuration c))
                  (awaitOnEnter c p fm8)) \<and>
         stateStack fm8 = stateStack fm @ [n] \<and> states fm8 = states fm \<and>
         managedLayers fm8 = managedLayers fm \<and> transitionEffects fm8 = transitionEffects fm \<and>
         (\<exists>u. uiLayerManager fm8 = sweep (orEmpty (uiField c visible)) (managedLayers fm) u) \<and>
         hookEvents (trace fm8) = hookEvents (trace fm) @
           effectExitEvents (effectOf fm c) (current fm) n (durationOr300 (transitionDuration c))"
proof -
  obtain tr evs where g: "getTransitionEffect (transitionEffectName c) (logged [NextFrame] fm) = (tr, evs)"
    by (cases "getTransitionEffect (transitionEffectName c) (logged [NextFrame] fm)")
  have tr: "tr = effectOf fm c"
    using g getTransitionEffect_cong[of "logged [NextFrame] fm" fm "transitionEffectName c"]
    by (simp add: effectOf_def)
  have evs: "hookEvents evs = []"
    using hookEvents_getTransitionEffect[of "transitionEffectName c" "logged [NextFrame] fm"] g by simp
  define d where "d = durationOr300 (transitionDuration c)"
  define fm2 where "fm2 = deactivateStateKeyListeners (deactivateStateEventListeners (logged evs (logged [NextFrame] fm)))"
  define fm3 where "fm3 = transitionOnExit tr (current fm) n d fm2"
  define fm7 where "fm7 = activateStateKeyListeners n (activateStateEventListeners n
     (emitSwitchEvent n (current fm) (fm3\<lparr>stateStack := stateStack fm3 @ [n]\<rparr>)))"
  define fm8 where "fm8 = fm7\<lparr>uiLayerManager := sweep (orEmpty (uiField c visible)) (managedLayers fm7) (uiLayerManager fm7)\<rparr>"
  have s7: "stateStack fm7 = stateStack fm @ [n]" "states fm7 = states fm" "managedLayers fm7 = managedLayers fm"
    by (simp_all add: fm7_def fm3_def fm2_def)
  have u: "updateUiVisibility fm7 = Inr fm8"
    unfolding fm8_def by (rule updateUiVisibility_registered) (simp_all add: s7 reg)
  have t7: "hookEvents (trace fm7) = hookEvents (trace fm) @ effectExitEvents tr (current fm) n d"
    by (simp add: fm7_def fm3_def fm2_def evs)
  have sw: "push n p fm = Inr (transitionOnEnter tr n (current fm) d (awaitOnEnter c p fm8))"
    using reg g u go
    by (simp add: push_def Let_def fm7_def fm3_def fm2_def d_def)
  show ?thesis
    apply (rule exI[of _ fm8])
    using sw t7 s7 by (auto simp: tr d_def fm8_def fm7_def fm3_def fm2_def)
qed







lemma lyName_showLayer [simp]: "lyName (showLayer l) = lyName l"
  by (simp add: showLayer_def)

lemma lyName_hideLayer [simp]: "lyName (hideLayer l) = lyName l"
  by (simp add: hideLayer_def)






lemma mapHas_obtain: "mapHas n m \<Longrightarrow> \<exists>c. map_of m n = Some c"
  by (simp add: mapHas_def)





lemma map_of_mapSet: "map_of (mapSet k v m) k = Some v"
  by (induction m) auto

lemma map_of_mapSet_other: "k \<noteq> n \<Longrightarrow> map_of (mapSet n v m) k = map_of m k"
  by (induction m) auto

lemma mapHas_mapSet: "mapHas k (mapSet n v m) \<longleftrightarrow> k = n \<or> mapHas k m"
  by (cases "k = n") (simp_all add: mapHas_def map_of_mapSet map_of_mapSet_other)

lemma stackRegistered_new: "stackRegistered newFocusManager"
  by (simp add: stackRegistered_def newFocusManager_def)

lemma stackRegistered_register:
  assumes "stackRegistered fm" and "register st fm = Inr fm'"
  shows "stackRegistered fm'"
proof -
  from assms(2) obtain c where "stateStack fm' = stateStack fm"
    and "states fm' = mapSet (stName st) c (states fm)"
    by (auto simp: register_def Let_def logged_def split: prod.splits sum.splits if_splits)
  with assms(1) show ?thesis
    by (simp add: stackRegistered_def mapHas_mapSet)
qed

lemma stackRegistered_applyOp:
  assumes sr: "stackRegistered fm" and a: "applyOp x fm = Inr fm'"
  shows "stackRegistered fm'"
proof (cases "transitions x fm")
  case False
  show ?thesis
  proof (cases x)
    case (Switch n p)
    with False a have "stateStack fm' = stateStack fm \<and> states fm' = states fm"
      by (auto simp: switch_def mapHas_def split: if_splits)
    with sr show ?thesis by (simp add: stackRegistered_def)
  next
    case (Push n p)
    with False a have "stateStack fm' = stateStack fm \<and> states fm' = states fm"
      by (auto simp: push_def mapHas_def split: if_splits)
    with sr show ?thesis by (simp add: stackRegistered_def)
  next
    case Pop
    with False a have "stateStack fm' = stateStack fm \<and> states fm' = states fm"
      by (auto simp: pop_def split: if_splits)
    with sr show ?thesis by (simp add: stackRegistered_def)
  qed
next
  case True
  show ?thesis
  proof (cases x)
    case (Switch n p)
    with True obtain c where c: "map_of (states fm) n = Some c"
      and go: "\<not> (current fm = Some n \<and> length (stateStack fm) = 1)"
      by (auto dest: mapHas_obtain)
    from switch_run[OF c go, of p] a Switch have "stateStack fm' = [n]" "states fm' = states fm"
      by auto
    with c show ?thesis by (simp add: stackRegistered_def mapHas_def)
  next
    case (Push n p)
    with True obtain c where c: "map_of (states fm) n = Some c" and go: "current fm \<noteq> Some n"
      by (auto dest: mapHas_obtain)
    from push_run[OF c go, of p] a Push have "stateStack fm' = stateStack fm @ [n]" "states fm' = states fm"
      by auto
    with c sr show ?thesis by (simp add: stackRegistered_def mapHas_def)
  next
    case Pop
    from a Pop True have "set (stateStack fm') \<subseteq> set (stateStack fm) \<and> states fm' = states fm"
      by (auto simp: pop_def Let_def split: if_splits option.splits prod.splits sum.splits
          simp: updateUiVisibility_def current_def dest: in_set_butlastD)
    with sr show ?thesis by (auto simp: stackRegistered_def)
  qed
qed

lemma resolveInheritance_keeps_transition:
  "transitionEffectName (fst (resolveInheritance sts config visited)) = transitionEffectName config \<and>
   transitionDuration (fst (resolveInheritance sts config visited)) = transitionDuration config"
  by (subst (1 2) resolveInheritance.simps)
     (simp add: mergeConfigs_def Let_def split: option.splits prod.splits)

lemma register_stores_declared_transition:
  assumes "register st fm = Inr fm'"
  shows "\<exists>c. map_of (states fm') (stName st) = Some c \<and>
     transitionEffectName c = stTransitionEffectName st \<and>
     transitionDuration c = stTransitionDuration st"
proof -
  define sts where "sts = states (if mapHas (stName st) (states fm)
       then logged [Logged ''warn'' (''A state with the name '' @ quoted (stName st) @
              '' is already registered. Overwriting.'')] fm else fm)"
  from assms have "states fm' = mapSet (stName st) (fst (resolveInheritance sts (build st) [])) (states fm)"
    by (auto simp: register_def Let_def logged_def sts_def split: prod.splits sum.splits if_splits)
  then show ?thesis
    using resolveInheritance_keeps_transition[of sts "build st" "[]"]
    by (simp add: map_of_mapSet build_def Let_def)
qed


section \<open>Lemmas: the bookkeeping of a layer and the dispatch loops\<close>











lemma ran_runCleanupTasks: "filter (\<lambda>e. \<not> isLogged e) (runCleanupTasks ts) = map taskRan ts"
proof (induction ts)
  case Nil
  then show ?case by simp
next
  case (Cons t ts)
  then show ?case
    by (cases t) (auto simp: call_def split: option.splits)
qed

lemma emitTo_append:
  "emitTo invoke n p (hs @ hs') = emitTo invoke n p hs @ emitTo invoke n p hs'"
  by (induction hs) (auto split: prod.splits option.splits)

lemma runCleanupTasks_append:
  "runCleanupTasks (xs @ ys) = runCleanupTasks xs @ runCleanupTasks ys"
  by (induction xs) (auto split: prod.splits option.splits)

lemma ran_emitTo:
  "filter (\<lambda>e. \<not> isLogged e) (emitTo (invokeHandler cur) n p hs) =
     concat (map (\<lambda>h. fst (invokeHandler cur h p)) hs)"
proof (induction hs)
  case Nil
  then show ?case by simp
next
  case (Cons h hs)
  have "filter (\<lambda>e. \<not> isLogged e) (fst (invokeHandler cur h p)) = fst (invokeHandler cur h p)"
    by (cases h) (simp_all add: call_def)
  with Cons show ?case
    by (cases "invokeHandler cur h p") (auto split: option.splits)
qed

section \<open>The claims\<close>

text \<open>
  C1. The claim is that the resolved hook counts of a state are the sums of the declared
  counts over the state and its ancestors, each ancestor once, and that the composed
  enter hook runs each ancestor's hooks once, parent before child. The source does this
  for a chain of two, and not for a chain of three: \<open>register\<close> stores the resolved
  configuration of \<open>B\<close> with its \<open>extends\<close> still set, so that resolving \<open>C\<close> resolves
  the stored \<open>B\<close> again and merges \<open>A\<close> into it a second time. With one enter hook each,
  the resolved \<open>C\<close> has the count 4, not 3, and awaiting its \<open>onEnter\<close> (and its
  \<open>onExit\<close>) runs the composed hook of \<open>A\<close> twice.
\<close>

theorem C1_three_level_chain_counts_base_twice:
  "\<not> isl (exampleRun chainABC []) \<and>
   map (\<lambda>st. length (onEnterHooks st)) chainABC = [1, 1, 1] \<and>
   map_option onEnterHookCount (resolvedOf ''B'' (example chainABC [])) = Some (Some 2) \<and>
   map_option (\<lambda>c. awaitHook (onEnter c)) (resolvedOf ''B'' (example chainABC [])) = Some [''A'', ''B''] \<and>
   map_option onEnterHookCount (resolvedOf ''C'' (example chainABC [])) = Some (Some 4) \<and>
   map_option onExitHookCount (resolvedOf ''C'' (example chainABC [])) = Some (Some 0) \<and>
   map_option (\<lambda>c. awaitHook (onEnter c)) (resolvedOf ''C'' (example chainABC [])) = Some [''A'', ''A'', ''B'', ''C''] \<and>
   map_option (\<lambda>c. awaitHook (onExit c)) (resolvedOf ''C'' (example chainABC [])) = Some [''A'', ''A'', ''B'', ''C'']"
  by code_simp

text \<open>
  C2, as stated, at a key handler: the closure that \<open>_activateStateKeyListeners\<close>
  installs on \<open>document\<close> calls the user's callback outside any \<open>try\<close>, so the
  exception leaves the handler and the framework logs nothing.
\<close>

theorem C2_key_handler_counterexample:
  "keyHandler (Some ''game'') throwingEscape ''Escape'' = ([Invoked 7 [''Escape'']], Some (Error ''boom'')) \<and>
   \<not> handled (keyHandler (Some ''game'') throwingEscape ''Escape'')"
  by (simp add: throwingEscape_def handled_def call_def)

text \<open>
  C2, amended. An exception thrown by a cleanup task is caught inside the loop of
  \<open>clearListeners\<close> and logged, and the tasks after it still run, as every task does; an
  exception thrown by an event-bus handler is caught inside the loop of \<open>emit\<close> and
  logged, and the handlers after it still run, as every handler does. An exception thrown
  by the callback of a state-scoped key handler is not caught by the framework: the
  handler installed on \<open>document\<close> passes it on to the host's event dispatch and logs
  nothing.
\<close>

theorem C2_exceptions_at_dispatch:
  "snd (clearListeners (l\<lparr>cleanupTasks := xs @ UserTask (Callback i (Some e)) # ys\<rparr>)) =
     runCleanupTasks xs @ [Invoked i [], Logged ''error'' ''Error during UILayer cleanup task''] @
     runCleanupTasks ys \<and>
   filter (\<lambda>e. \<not> isLogged e) (snd (clearListeners l)) = map taskRan (cleanupTasks l) \<and>
   emit (invokeHandler cur) eventName payload
       (mapSet eventName (hs @ Plain (Callback i (Some e)) # hs') bus) =
     emitTo (invokeHandler cur) eventName payload hs @
     [Invoked i (payloadArgs payload),
      Logged ''error'' (''Error in event handler for '' @ quoted eventName @ '':'')] @
     emitTo (invokeHandler cur) eventName payload hs' \<and>
   filter (\<lambda>e. \<not> isLogged e) (emit (invokeHandler cur) eventName payload (mapSet eventName hs bus)) =
     concat (map (\<lambda>h. fst (invokeHandler cur h payload)) hs) \<and>
   keyHandler (Some stateName) (KeyHandler stateName k listener) (klKey listener) =
     ([Invoked (cbId (klCallback listener)) [klKey listener]], cbThrows (klCallback listener))"
  by (simp add: clearListeners_def Let_def runCleanupTasks_append call_def ran_runCleanupTasks
      emit_def map_of_mapSet emitTo_append ran_emitTo quoted_def)






text \<open>
  The last step of the composed enter hook is skipped whenever the entry version is no
  longer the captured one: the layer tree is left as it is.
\<close>

lemma final_step_skipped_when_stale:
  "v \<noteq> entryVersion (builder w) \<Longrightarrow>
   snd (finalStep v w) = Finished \<and> wUi (fst (finalStep v w)) = wUi w"
  by (simp add: finalStep_def)

text \<open>
  For comparison, the schedule in which the exit begins while the instantiation itself is
  awaited: the instance is destroyed and the managed list stays empty.
\<close>

lemma exit_during_instantiation_rolls_back:
  "enterRun (sysRun exitDuringInstantiation (newSys (newWorld prefabOnly []))) = (0, Finished) \<and>
   scene (world (sysRun exitDuringInstantiation (newSys (newWorld prefabOnly [])))) = [] \<and>
   slotOf 0 (world (sysRun exitDuringInstantiation (newSys (newWorld prefabOnly [])))) = []"
  by code_simp




text \<open>
  The transition layer is left out of the amended statement because a default effect
  hides it at the end of its enter phase, after the sweep: a state that lists it as
  visible finds it hidden after the switch.
\<close>

lemma transition_layer_hidden_by_default_effect:
  "transitions (Switch ''curtain'' None) (example transitionLayerVisible []) \<and>
   \<not> isl (applyOp (Switch ''curtain'' None) (example transitionLayerVisible [])) \<and>
   transitionLayer \<in> set (managedLayers (projr (applyOp (Switch ''curtain'' None) (example transitionLayerVisible [])))) \<and>
   transitionLayer \<in> set (topVisible (projr (applyOp (Switch ''curtain'' None) (example transitionLayerVisible [])))) \<and>
   isHidden (projr (applyOp (Switch ''curtain'' None) (example transitionLayerVisible []))) transitionLayer"
  by code_simp








end
